theory Spec2Isabelle
  imports Main
begin

section \<open>Errors and JavaScript values\<close>

text \<open>
  The error classes of \<^verbatim>\<open>@essential-projects/errors_ts\<close> that the code throws, together
  with the two failures that come from the runtime rather than from a \<^verbatim>\<open>throw\<close>:
  \<open>TypeError\<close> (a property read on \<^verbatim>\<open>undefined\<close>/\<^verbatim>\<open>null\<close>, \<^verbatim>\<open>Object.keys(null)\<close>) and
  \<open>GenericError\<close> (a plain \<^verbatim>\<open>Error\<close>, such as the one \<^verbatim>\<open>BpmnModdle.fromXML\<close> reports).
  Only the class of an error is kept; its message is not modelled.
\<close>

datatype error =
    BadRequestError
  | NotFoundError
  | ForbiddenError
  | UnprocessableEntityError
  | InternalServerError
  | TypeError
  | GenericError

text \<open>\<^verbatim>\<open>isError(error, ForbiddenError)\<close>: the class test of the error library.\<close>

definition isError :: "error \<Rightarrow> error \<Rightarrow> bool" where
  "isError e cls = (e = cls)"

text \<open>
  JSON-like JavaScript values. An object is the list of its own enumerable properties
  (keys pairwise distinct).
\<close>

datatype jsval =
    JUndefined
  | JNull
  | JBool bool
  | JNumber int
  | JString string
  | JArray "jsval list"
  | JObject "(string \<times> jsval) list"

fun typeof :: "jsval \<Rightarrow> string" where
  "typeof JUndefined = ''undefined''"
| "typeof JNull = ''object''"
| "typeof (JBool b) = ''boolean''"
| "typeof (JNumber n) = ''number''"
| "typeof (JString s) = ''string''"
| "typeof (JArray xs) = ''object''"
| "typeof (JObject kvs) = ''object''"

fun isArray :: "jsval \<Rightarrow> bool" where
  "isArray (JArray xs) = True"
| "isArray v = False"

text \<open>Decimal rendering of an array index, as used for the property keys of arrays and strings.\<close>

definition digitChar :: "nat \<Rightarrow> char" where
  "digitChar d = char_of (48 + d)"

function showNat :: "nat \<Rightarrow> string" where
  "showNat n = (if n < 10 then [digitChar n] else showNat (n div 10) @ [digitChar (n mod 10)])"
  by pat_completeness auto
termination
  by (relation "measure (\<lambda>n. n)") auto

text \<open>The own enumerable properties of a value, in the order \<^verbatim>\<open>Object.keys\<close> lists them.\<close>

fun ownProperties :: "jsval \<Rightarrow> (string \<times> jsval) list" where
  "ownProperties (JObject kvs) = kvs"
| "ownProperties (JArray xs) = zip (map showNat [0..<length xs]) xs"
| "ownProperties (JString s) = zip (map showNat [0..<length s]) (map (\<lambda>c. JString [c]) s)"
| "ownProperties v = []"

text \<open>\<^verbatim>\<open>Object.keys(v)\<close>: throws a \<^verbatim>\<open>TypeError\<close> on \<^verbatim>\<open>undefined\<close> and \<^verbatim>\<open>null\<close>.\<close>

fun objectKeys :: "jsval \<Rightarrow> error + string list" where
  "objectKeys JUndefined = Inl TypeError"
| "objectKeys JNull = Inl TypeError"
| "objectKeys v = Inr (map fst (ownProperties v))"

text \<open>
  The property read \<^verbatim>\<open>v.key\<close> for a key that is no built-in property: a \<^verbatim>\<open>TypeError\<close> on
  \<^verbatim>\<open>undefined\<close> and \<^verbatim>\<open>null\<close>, the own property or \<^verbatim>\<open>undefined\<close> otherwise.
\<close>

fun getProperty :: "jsval \<Rightarrow> string \<Rightarrow> error + jsval" where
  "getProperty JUndefined key = Inl TypeError"
| "getProperty JNull key = Inl TypeError"
| "getProperty v key =
     (case map_of (ownProperties v) key of None \<Rightarrow> Inr JUndefined | Some x \<Rightarrow> Inr x)"

text \<open>
  An object under construction, as \<^verbatim>\<open>Object.assign\<close> sees its target: the own properties and
  the prototype. The prototype is \<^verbatim>\<open>Object.prototype\<close> for an object literal; the setter
  \<^verbatim>\<open>__proto__\<close> that lives there can replace it by \<^verbatim>\<open>null\<close> or by an object value.
\<close>

datatype prototype =
    ObjectPrototype
  | NullPrototype
  | ValuePrototype jsval

record jsObject =
  obj_own :: "string \<rightharpoonup> jsval"
  obj_proto :: prototype

text \<open>The object literal \<^verbatim>\<open>{}\<close>.\<close>

definition emptyObject :: jsObject where
  "emptyObject = \<lparr> obj_own = Map.empty, obj_proto = ObjectPrototype \<rparr>"

text \<open>
  Whether a write to the key \<^verbatim>\<open>__proto__\<close> reaches the setter of \<^verbatim>\<open>Object.prototype\<close> through
  the prototype chain: not when the prototype is \<^verbatim>\<open>null\<close>, and not when the prototype is a
  value that has an own data property of that name.
\<close>

fun protoSetterReachable :: "prototype \<Rightarrow> bool" where
  "protoSetterReachable ObjectPrototype = True"
| "protoSetterReachable NullPrototype = False"
| "protoSetterReachable (ValuePrototype v) = (map_of (ownProperties v) ''__proto__'' = None)"

text \<open>
  The write \<^verbatim>\<open>target['__proto__'] = v\<close>: an own property of that name is overwritten; where
  the setter is reached it replaces the prototype if \<open>v\<close> is an object or \<^verbatim>\<open>null\<close> and does
  nothing otherwise; where it is not reached an own property is created.
\<close>

definition setProto :: "jsObject \<Rightarrow> jsval \<Rightarrow> jsObject" where
  "setProto target v =
     (if obj_own target ''__proto__'' \<noteq> None \<or> \<not> protoSetterReachable (obj_proto target)
      then target \<lparr> obj_own := (obj_own target)(''__proto__'' \<mapsto> v) \<rparr>
      else if typeof v \<noteq> ''object'' then target
      else if v = JNull then target \<lparr> obj_proto := NullPrototype \<rparr>
      else target \<lparr> obj_proto := ValuePrototype v \<rparr>)"

text \<open>
  \<^verbatim>\<open>Object.assign(target, source)\<close>: every own enumerable property of the source is written to
  the target with \<^verbatim>\<open>target[key] = value\<close>. A key other than \<^verbatim>\<open>__proto__\<close> becomes or
  overwrites an own property of the target; the key \<^verbatim>\<open>__proto__\<close> goes through \<open>setProto\<close>.
  \<^verbatim>\<open>undefined\<close>, \<^verbatim>\<open>null\<close>, numbers and booleans have no own enumerable properties.
\<close>

definition objectAssign :: "jsObject \<Rightarrow> jsval \<Rightarrow> jsObject" where
  "objectAssign target source =
     (let props = ownProperties source;
          written = target \<lparr> obj_own :=
                      obj_own target ++ map_of (filter (\<lambda>kv. fst kv \<noteq> ''__proto__'') props) \<rparr>
      in case map_of props ''__proto__'' of
           None \<Rightarrow> written
         | Some v \<Rightarrow> setProto written v)"


section \<open>The entity-based adapter (\<^verbatim>\<open>process_engine_adapter.ts\<close>)\<close>

text \<open>
  The file holds two copies of \<^verbatim>\<open>ConsumerApiProcessEngineAdapter\<close>. The functions below follow
  the copy that reads everything through the datastore; the lane functions and
  \<^verbatim>\<open>_getMainProcessInstanceIdFromCorrelation\<close> are the same in both. A private method
  \<^verbatim>\<open>_name\<close> is called \<open>name\<close> here; where a public method has that name already, the
  private one carries the suffix \<open>_priv\<close> or \<open>_query\<close>, and the body of a \<^verbatim>\<open>for\<close> loop the
  suffix \<open>_loop\<close>.
\<close>

subsection \<open>BPMN definitions: lane sets\<close>

text \<open>
  The moddle elements the adapter reads. A lane has an id, an optional name (the claim that
  grants access), an optional child lane set and an optional list of flow-node references
  (kept as the ids of the referenced nodes).
\<close>

datatype lane =
  Lane (lane_id: string) (lane_name: "string option")
       (childLaneSet: "laneSet option") (flowNodeRef: "string list option")
and laneSet =
  LaneSet (lanes: "lane list")

record rootElement =
  re_type :: string
  re_laneSets :: "laneSet list option"

record IDefinition =
  rootElements :: "rootElement list"

text \<open>
  \<^verbatim>\<open>_getLanesThatCanBeAccessed(identity, laneSet)\<close>. \<open>hasClaim\<close> is
  \<^verbatim>\<open>consumerApiIamService.hasClaim(identity, \<cdot>)\<close>. The result pairs the returned lanes with
  the ids of the lanes for which \<^verbatim>\<open>logger.warn\<close> was called, in call order. The first
  equation of the loop is \<^verbatim>\<open>lane.name === undefined\<close>, the test \<open>nm = []\<close> is
  \<^verbatim>\<open>lane.name === ''\<close>.
\<close>

fun getLanesThatCanBeAccessed :: "(string \<Rightarrow> bool) \<Rightarrow> laneSet option \<Rightarrow> lane list \<times> string list"
and getLanesThatCanBeAccessed_loop :: "(string \<Rightarrow> bool) \<Rightarrow> lane list \<Rightarrow> lane list \<times> string list"
where
  "getLanesThatCanBeAccessed hasClaim None = ([], [])"
| "getLanesThatCanBeAccessed hasClaim (Some (LaneSet ls)) =
     getLanesThatCanBeAccessed_loop hasClaim ls"
| "getLanesThatCanBeAccessed_loop hasClaim [] = ([], [])"
| "getLanesThatCanBeAccessed_loop hasClaim (Lane i None c r # rest) =
     (fst (getLanesThatCanBeAccessed_loop hasClaim rest),
      i # snd (getLanesThatCanBeAccessed_loop hasClaim rest))"
| "getLanesThatCanBeAccessed_loop hasClaim (Lane i (Some nm) c r # rest) =
     (if nm = [] then
        (fst (getLanesThatCanBeAccessed_loop hasClaim rest),
         i # snd (getLanesThatCanBeAccessed_loop hasClaim rest))
      else if \<not> hasClaim nm then getLanesThatCanBeAccessed_loop hasClaim rest
      else
        (Lane i (Some nm) c r
           # fst (getLanesThatCanBeAccessed hasClaim c)
           @ fst (getLanesThatCanBeAccessed_loop hasClaim rest),
         snd (getLanesThatCanBeAccessed hasClaim c)
           @ snd (getLanesThatCanBeAccessed_loop hasClaim rest)))"

text \<open>
  \<^verbatim>\<open>_getClosestLaneIdToElement(laneSet, elementId)\<close>; \<open>None\<close> is \<^verbatim>\<open>undefined\<close>. The
  \<^verbatim>\<open>return\<close> in the child-lane-set branch leaves the loop whatever the recursive call yields.
\<close>

fun getClosestLaneIdToElement :: "laneSet \<Rightarrow> string \<Rightarrow> string option"
and getClosestLaneIdToElement_loop :: "lane list \<Rightarrow> string \<Rightarrow> string option"
where
  "getClosestLaneIdToElement (LaneSet ls) elementId = getClosestLaneIdToElement_loop ls elementId"
| "getClosestLaneIdToElement_loop [] elementId = None"
| "getClosestLaneIdToElement_loop (Lane i n (Some c) r # rest) elementId =
     getClosestLaneIdToElement c elementId"
| "getClosestLaneIdToElement_loop (Lane i n None None # rest) elementId =
     getClosestLaneIdToElement_loop rest elementId"
| "getClosestLaneIdToElement_loop (Lane i n None (Some refs) # rest) elementId =
     (if elementId \<in> set refs then Some i
      else getClosestLaneIdToElement_loop rest elementId)"

text \<open>\<^verbatim>\<open>_getLaneIdForElement(processDefinitions, elementId)\<close>: the two nested loops.\<close>

fun getLaneIdForElement_laneSets :: "laneSet list \<Rightarrow> string \<Rightarrow> string option" where
  "getLaneIdForElement_laneSets [] elementId = None"
| "getLaneIdForElement_laneSets (ls # rest) elementId =
     (case getClosestLaneIdToElement ls elementId of
        Some closestLaneId \<Rightarrow> Some closestLaneId
      | None \<Rightarrow> getLaneIdForElement_laneSets rest elementId)"

fun getLaneIdForElement_roots :: "rootElement list \<Rightarrow> string \<Rightarrow> string option" where
  "getLaneIdForElement_roots [] elementId = None"
| "getLaneIdForElement_roots (rootEl # rest) elementId =
     (if re_type rootEl \<noteq> ''bpmn:Process'' then getLaneIdForElement_roots rest elementId
      else
        (case re_laneSets rootEl of
           None \<Rightarrow> getLaneIdForElement_roots rest elementId
         | Some laneSets \<Rightarrow>
             (case getLaneIdForElement_laneSets laneSets elementId of
                Some closestLaneId \<Rightarrow> Some closestLaneId
              | None \<Rightarrow> getLaneIdForElement_roots rest elementId)))"

definition getLaneIdForElement :: "IDefinition \<Rightarrow> string \<Rightarrow> string option" where
  "getLaneIdForElement processDefinitions elementId =
     getLaneIdForElement_roots (rootElements processDefinitions) elementId"

text \<open>
  The lanes of a lane-set tree, parents before children (used to state properties of the
  traversals; the adapter has no such function).
\<close>

fun lanesOfTree :: "laneSet option \<Rightarrow> lane list"
and lanesOfList :: "lane list \<Rightarrow> lane list"
where
  "lanesOfTree None = []"
| "lanesOfTree (Some (LaneSet ls)) = lanesOfList ls"
| "lanesOfList [] = []"
| "lanesOfList (Lane i n c r # rest) = Lane i n c r # lanesOfTree c @ lanesOfList rest"


subsection \<open>The datastore\<close>

text \<open>
  The entities the adapter reads through \<^verbatim>\<open>IDatastoreService\<close>. The datastore is an
  external collaborator: it is represented by its tables, and a query by the rows that
  satisfy the clauses the adapter builds, in table order. The \<^verbatim>\<open>xml\<close> of a process
  definition is represented by what \<^verbatim>\<open>BpmnModdle.fromXML\<close> makes of it: the parsed
  definitions, or \<open>None\<close> when the parser reports an error.
\<close>

record processDefEntity =
  pd_key :: string
  pd_xml :: "IDefinition option"

record processEntity =
  p_id :: string
  p_key :: string
  p_correlationId :: string
  p_callerId :: "string option"
  p_isSubProcess :: bool
  p_processDef :: processDefEntity

datatype BpmnType = callActivity | userTask | startEvent | endEvent | otherType

record nodeInstanceEntity =
  ni_id :: string
  ni_process :: string
  ni_type :: BpmnType

record nodeDefEntity =
  nd_key :: string
  nd_type :: BpmnType
  nd_processDef_key :: string
  nd_subProcessKey :: string

record NodeDefFormField =
  ndf_id :: string
  ndf_label :: string
  ndf_type :: string
  ndf_defaultValue :: jsval

text \<open>
  A user task entity with the expansions the queries ask for: \<^verbatim>\<open>process.id\<close>,
  \<^verbatim>\<open>process.processDef.key\<close> and \<^verbatim>\<open>nodeDef.extensions\<close> (\<open>None\<close>: \<^verbatim>\<open>undefined\<close> or
  \<^verbatim>\<open>null\<close>; \<open>Some None\<close>: extensions without \<^verbatim>\<open>formFields\<close>).
\<close>

record userTaskEntity =
  ut_id :: string
  ut_key :: string
  ut_state :: string
  ut_process_id :: string
  ut_process_processDef_key :: string
  ut_extensions :: "NodeDefFormField list option option"

record datastore =
  processDefs :: "processDefEntity list"
  processes :: "processEntity list"
  nodeInstances :: "nodeInstanceEntity list"
  nodeDefs :: "nodeDefEntity list"
  userTasks :: "userTaskEntity list"

text \<open>
  The IAM services: \<^verbatim>\<open>resolveExecutionContext\<close> of the process engine's IAM service (it may
  reject) and \<^verbatim>\<open>hasClaim\<close> of the consumer API's IAM service. An execution context is
  identified with the identity it was resolved for.
\<close>

record iamServices =
  resolveExecutionContext :: "string \<Rightarrow> error + string"
  hasClaim :: "string \<Rightarrow> string \<Rightarrow> bool"

subsection \<open>Process models and accessible lanes\<close>

definition getProcessModelByKey :: "datastore \<Rightarrow> string \<Rightarrow> error + processDefEntity" where
  "getProcessModelByKey ds processModelKey =
     (case find (\<lambda>d. pd_key d = processModelKey) (processDefs ds) of
        None \<Rightarrow> Inl NotFoundError
      | Some processDef \<Rightarrow> Inr processDef)"

definition getDefinitionsFromProcessModel :: "processDefEntity \<Rightarrow> error + IDefinition" where
  "getDefinitionsFromProcessModel processModel =
     (case pd_xml processModel of
        None \<Rightarrow> Inl GenericError
      | Some definitions \<Rightarrow> Inr definitions)"

text \<open>
  The loops of \<^verbatim>\<open>_getIdsOfLanesThatCanBeAccessed\<close> over lane sets and root elements. They
  collect the returned lanes; the warnings go to the logger and no result depends on them.
\<close>

fun getIdsOfLanesThatCanBeAccessed_laneSets :: "(string \<Rightarrow> bool) \<Rightarrow> laneSet list \<Rightarrow> lane list" where
  "getIdsOfLanesThatCanBeAccessed_laneSets hc [] = []"
| "getIdsOfLanesThatCanBeAccessed_laneSets hc (ls # rest) =
     fst (getLanesThatCanBeAccessed hc (Some ls)) @ getIdsOfLanesThatCanBeAccessed_laneSets hc rest"

fun getIdsOfLanesThatCanBeAccessed_roots :: "(string \<Rightarrow> bool) \<Rightarrow> rootElement list \<Rightarrow> lane list" where
  "getIdsOfLanesThatCanBeAccessed_roots hc [] = []"
| "getIdsOfLanesThatCanBeAccessed_roots hc (rootEl # rest) =
     (if re_type rootEl \<noteq> ''bpmn:Process'' then getIdsOfLanesThatCanBeAccessed_roots hc rest
      else
        (case re_laneSets rootEl of
           None \<Rightarrow> getIdsOfLanesThatCanBeAccessed_roots hc rest
         | Some laneSets \<Rightarrow>
             getIdsOfLanesThatCanBeAccessed_laneSets hc laneSets
             @ getIdsOfLanesThatCanBeAccessed_roots hc rest))"

definition getIdsOfLanesThatCanBeAccessed ::
  "datastore \<Rightarrow> iamServices \<Rightarrow> string \<Rightarrow> string \<Rightarrow> error + string list" where
  "getIdsOfLanesThatCanBeAccessed ds iam executionContext processModelKey =
     (case getProcessModelByKey ds processModelKey of
        Inl e \<Rightarrow> Inl e
      | Inr processModel \<Rightarrow>
          (case getDefinitionsFromProcessModel processModel of
             Inl e \<Rightarrow> Inl e
           | Inr processDefinitions \<Rightarrow>
               Inr (map lane_id
                     (getIdsOfLanesThatCanBeAccessed_roots (hasClaim iam executionContext)
                        (rootElements processDefinitions)))))"

subsection \<open>The correlation resolver\<close>

text \<open>
  \<^verbatim>\<open>_getMainProcessInstanceIdFromCorrelation\<close>: the query by correlation id, the emptiness
  test, then \<^verbatim>\<open>find\<close> and the read of \<^verbatim>\<open>mainProcess.id\<close>, which throws a \<^verbatim>\<open>TypeError\<close> when
  \<^verbatim>\<open>find\<close> has yielded \<^verbatim>\<open>undefined\<close>.
\<close>

definition getMainProcessInstanceIdFromCorrelation :: "datastore \<Rightarrow> string \<Rightarrow> error + string" where
  "getMainProcessInstanceIdFromCorrelation ds correlationId =
     (let matchingProcesses = filter (\<lambda>p. p_correlationId p = correlationId) (processes ds) in
      if matchingProcesses = [] then Inl NotFoundError
      else
        (case find (\<lambda>p. p_isSubProcess p = False) matchingProcesses of
           None \<Rightarrow> Inl TypeError
         | Some mainProcess \<Rightarrow> Inr (p_id mainProcess)))"

definition getProcessInstanceById :: "datastore \<Rightarrow> string \<Rightarrow> error + processEntity" where
  "getProcessInstanceById ds processInstanceId =
     (case find (\<lambda>p. p_id p = processInstanceId) (processes ds) of
        None \<Rightarrow> Inl NotFoundError
      | Some process \<Rightarrow> Inr process)"

definition getCallActivitiesForProcessInstance :: "datastore \<Rightarrow> string \<Rightarrow> nodeInstanceEntity list" where
  "getCallActivitiesForProcessInstance ds processInstanceId =
     filter (\<lambda>n. ni_process n = processInstanceId \<and> ni_type n = callActivity) (nodeInstances ds)"

definition getCalledProcessesViaCallerIds :: "datastore \<Rightarrow> string list \<Rightarrow> processEntity list" where
  "getCalledProcessesViaCallerIds ds callerIds =
     (if callerIds = [] then []
      else filter (\<lambda>p. case p_callerId p of None \<Rightarrow> False | Some c \<Rightarrow> c \<in> set callerIds)
             (processes ds))"

text \<open>
  The \<^verbatim>\<open>for\<close> loop of \<^verbatim>\<open>_getSubProcessInstances\<close>, over the recursive call \<open>sub\<close>; \<open>None\<close>
  is a recursive call that does not return.
\<close>

fun getSubProcessInstances_loop ::
  "(processEntity \<Rightarrow> processEntity list option) \<Rightarrow> processEntity list \<Rightarrow> processEntity list
   \<Rightarrow> processEntity list option" where
  "getSubProcessInstances_loop sub [] result = Some result"
| "getSubProcessInstances_loop sub (process # rest) result =
     (case sub process of
        None \<Rightarrow> None
      | Some subProcesses \<Rightarrow> getSubProcessInstances_loop sub rest (result @ subProcesses))"

text \<open>
  \<^verbatim>\<open>_getSubProcessInstances\<close>. The source recursion has no cycle guard and need not return,
  so the model carries fuel that bounds the recursion depth: \<open>None\<close> means that the depth
  was not enough.
\<close>

fun getSubProcessInstances :: "nat \<Rightarrow> datastore \<Rightarrow> string \<Rightarrow> processEntity list option" where
  "getSubProcessInstances 0 ds parentProcessInstanceId = None"
| "getSubProcessInstances (Suc fuel) ds parentProcessInstanceId =
     (let nodes = getCallActivitiesForProcessInstance ds parentProcessInstanceId;
          nodeIds = map ni_id nodes;
          procs = getCalledProcessesViaCallerIds ds nodeIds
      in getSubProcessInstances_loop (\<lambda>process. getSubProcessInstances fuel ds (p_id process))
           procs procs)"

definition getProcessInstancesForCorrelation ::
  "nat \<Rightarrow> datastore \<Rightarrow> string \<Rightarrow> (error + processEntity list) option" where
  "getProcessInstancesForCorrelation fuel ds correlationId =
     (case getMainProcessInstanceIdFromCorrelation ds correlationId of
        Inl e \<Rightarrow> Some (Inl e)
      | Inr mainProcessInstaceId \<Rightarrow>
          (case getProcessInstanceById ds mainProcessInstaceId of
             Inl e \<Rightarrow> Some (Inl e)
           | Inr mainProcessInstance \<Rightarrow>
               (case getSubProcessInstances fuel ds mainProcessInstaceId of
                  None \<Rightarrow> None
                | Some subProcessInstances \<Rightarrow>
                    Some (Inr (mainProcessInstance # subProcessInstances)))))"

definition getNodesByTypeForProcessModel :: "datastore \<Rightarrow> string \<Rightarrow> BpmnType \<Rightarrow> nodeDefEntity list" where
  "getNodesByTypeForProcessModel ds processModelKey nodeType =
     filter (\<lambda>n. nd_processDef_key n = processModelKey \<and> nd_type n = nodeType) (nodeDefs ds)"

fun getSubProcessModelKeys_loop ::
  "(nodeDefEntity \<Rightarrow> string list option) \<Rightarrow> nodeDefEntity list \<Rightarrow> string list \<Rightarrow> string list option" where
  "getSubProcessModelKeys_loop sub [] result = Some result"
| "getSubProcessModelKeys_loop sub (callAct # rest) result =
     (case sub callAct of
        None \<Rightarrow> None
      | Some keys \<Rightarrow> getSubProcessModelKeys_loop sub rest (result @ keys))"

text \<open>\<^verbatim>\<open>_getSubProcessModelKeys\<close>, with fuel for the same reason.\<close>

fun getSubProcessModelKeys :: "nat \<Rightarrow> datastore \<Rightarrow> string \<Rightarrow> string list option" where
  "getSubProcessModelKeys 0 ds processModelKey = None"
| "getSubProcessModelKeys (Suc fuel) ds processModelKey =
     (let callActivities = getNodesByTypeForProcessModel ds processModelKey callActivity
      in getSubProcessModelKeys_loop
           (\<lambda>callAct. getSubProcessModelKeys fuel ds (nd_subProcessKey callAct))
           callActivities (map nd_subProcessKey callActivities))"

definition getProcessModelKeysForCorrelation ::
  "nat \<Rightarrow> datastore \<Rightarrow> string \<Rightarrow> (error + string list) option" where
  "getProcessModelKeysForCorrelation fuel ds correlationId =
     (case getMainProcessInstanceIdFromCorrelation ds correlationId of
        Inl e \<Rightarrow> Some (Inl e)
      | Inr mainProcessInstaceId \<Rightarrow>
          (case getProcessInstanceById ds mainProcessInstaceId of
             Inl e \<Rightarrow> Some (Inl e)
           | Inr mainProcessInstance \<Rightarrow>
               (case getSubProcessModelKeys fuel ds (p_key mainProcessInstance) of
                  None \<Rightarrow> None
                | Some subProcessModelKeys \<Rightarrow>
                    Some (Inr (pd_key (p_processDef mainProcessInstance) # subProcessModelKeys)))))"

definition processModelBelongsToCorrelation ::
  "nat \<Rightarrow> datastore \<Rightarrow> string \<Rightarrow> string \<Rightarrow> (error + bool) option" where
  "processModelBelongsToCorrelation fuel ds correlationId processModelKey =
     (case getProcessModelKeysForCorrelation fuel ds correlationId of
        None \<Rightarrow> None
      | Some (Inl e) \<Rightarrow> Some (Inl e)
      | Some (Inr processModelKeys) \<Rightarrow> Some (Inr (processModelKey \<in> set processModelKeys)))"


subsection \<open>User tasks of the adapter\<close>

record adapterUserTaskFormField =
  auf_id :: string
  auf_label :: string
  auf_type :: string
  auf_default_value :: jsval

record adapterUserTask =
  aut_key :: string
  aut_id :: string
  aut_process_instance_id :: string
  aut_data :: "adapterUserTaskFormField list"

definition getUserTasksForProcessModel_query :: "datastore \<Rightarrow> string \<Rightarrow> userTaskEntity list" where
  "getUserTasksForProcessModel_query ds processModelKey =
     filter (\<lambda>u. ut_process_processDef_key u = processModelKey \<and> ut_state u = ''wait'')
       (userTasks ds)"

definition getUserTasksForProcessInstance :: "datastore \<Rightarrow> string \<Rightarrow> userTaskEntity list" where
  "getUserTasksForProcessInstance ds processInstanceId =
     filter (\<lambda>u. ut_process_id u = processInstanceId \<and> ut_state u = ''wait'') (userTasks ds)"

text \<open>The lane filter shared by the two \<^verbatim>\<open>_getAccessibleUserTasksFor\<dots>\<close> functions.\<close>

definition identityCanAccessUserTask :: "IDefinition \<Rightarrow> string list \<Rightarrow> userTaskEntity \<Rightarrow> bool" where
  "identityCanAccessUserTask processDefinitions accessibleLaneIds task =
     (case getLaneIdForElement processDefinitions (ut_key task) of
        None \<Rightarrow> False
      | Some laneId \<Rightarrow> laneId \<in> set accessibleLaneIds)"

definition getAccessibleUserTasksForProcessModel ::
  "datastore \<Rightarrow> iamServices \<Rightarrow> string \<Rightarrow> string \<Rightarrow> error + userTaskEntity list" where
  "getAccessibleUserTasksForProcessModel ds iam executionContext processModelKey =
     (let tasks = getUserTasksForProcessModel_query ds processModelKey in
      case getIdsOfLanesThatCanBeAccessed ds iam executionContext processModelKey of
        Inl e \<Rightarrow> Inl e
      | Inr accessibleLaneIds \<Rightarrow>
          if length accessibleLaneIds = 0 then Inl ForbiddenError
          else
            (case getProcessModelByKey ds processModelKey of
               Inl e \<Rightarrow> Inl e
             | Inr processModel \<Rightarrow>
                 (case getDefinitionsFromProcessModel processModel of
                    Inl e \<Rightarrow> Inl e
                  | Inr processDefinitions \<Rightarrow>
                      Inr (filter (identityCanAccessUserTask processDefinitions accessibleLaneIds)
                             tasks))))"

definition getAccessibleUserTasksForProcessInstance ::
  "datastore \<Rightarrow> iamServices \<Rightarrow> string \<Rightarrow> processEntity \<Rightarrow> error + userTaskEntity list" where
  "getAccessibleUserTasksForProcessInstance ds iam executionContext processInstance =
     (let tasks = getUserTasksForProcessInstance ds (p_id processInstance) in
      case getIdsOfLanesThatCanBeAccessed ds iam executionContext
             (pd_key (p_processDef processInstance)) of
        Inl e \<Rightarrow> Inl e
      | Inr accessibleLaneIds \<Rightarrow>
          if length accessibleLaneIds = 0 then Inl ForbiddenError
          else
            (case getDefinitionsFromProcessModel (p_processDef processInstance) of
               Inl e \<Rightarrow> Inl e
             | Inr processDefinitions \<Rightarrow>
                 Inr (filter (identityCanAccessUserTask processDefinitions accessibleLaneIds)
                        tasks)))"

text \<open>
  The \<^verbatim>\<open>for\<close> loop of \<^verbatim>\<open>_getUserTasksForCorrelation\<close> with its \<^verbatim>\<open>try\<close>/\<^verbatim>\<open>catch\<close>, over the
  per-instance call \<open>forInstance\<close>.
\<close>

fun getUserTasksForCorrelation_loop ::
  "(processEntity \<Rightarrow> error + userTaskEntity list) \<Rightarrow> processEntity list \<Rightarrow> userTaskEntity list
   \<Rightarrow> error + userTaskEntity list" where
  "getUserTasksForCorrelation_loop forInstance [] tasks = Inr tasks"
| "getUserTasksForCorrelation_loop forInstance (processInstance # rest) tasks =
     (case forInstance processInstance of
        Inr userTasksForProcessInstance \<Rightarrow>
          getUserTasksForCorrelation_loop forInstance rest (tasks @ userTasksForProcessInstance)
      | Inl e \<Rightarrow>
          (if \<not> isError e ForbiddenError then Inl e
           else getUserTasksForCorrelation_loop forInstance rest tasks))"

text \<open>\<^verbatim>\<open>_getUserTasksForCorrelation\<close> (the private method).\<close>

definition getUserTasksForCorrelation_priv ::
  "nat \<Rightarrow> datastore \<Rightarrow> iamServices \<Rightarrow> string \<Rightarrow> string \<Rightarrow> (error + userTaskEntity list) option" where
  "getUserTasksForCorrelation_priv fuel ds iam executionContext correlationId =
     (case getProcessInstancesForCorrelation fuel ds correlationId of
        None \<Rightarrow> None
      | Some (Inl e) \<Rightarrow> Some (Inl e)
      | Some (Inr processInstances) \<Rightarrow>
          Some (getUserTasksForCorrelation_loop
                  (getAccessibleUserTasksForProcessInstance ds iam executionContext)
                  processInstances []))"

definition getUserTaskConfigFromUserTaskData ::
  "userTaskEntity \<Rightarrow> error + adapterUserTaskFormField list" where
  "getUserTaskConfigFromUserTaskData task =
     (case ut_extensions task of
        None \<Rightarrow> Inl UnprocessableEntityError
      | Some None \<Rightarrow> Inl UnprocessableEntityError
      | Some (Some nodeDefFormFields) \<Rightarrow>
          if length nodeDefFormFields = 0 then Inl UnprocessableEntityError
          else Inr (map (\<lambda>f. \<lparr> auf_id = ndf_id f, auf_label = ndf_label f, auf_type = ndf_type f,
                               auf_default_value = ndf_defaultValue f \<rparr>) nodeDefFormFields))"

fun userTaskEntitiesToUserTaskList :: "userTaskEntity list \<Rightarrow> error + adapterUserTask list" where
  "userTaskEntitiesToUserTaskList [] = Inr []"
| "userTaskEntitiesToUserTaskList (task # rest) =
     (case getUserTaskConfigFromUserTaskData task of
        Inl e \<Rightarrow> Inl e
      | Inr config \<Rightarrow>
          (case userTaskEntitiesToUserTaskList rest of
             Inl e \<Rightarrow> Inl e
           | Inr converted \<Rightarrow>
               Inr (\<lparr> aut_key = ut_key task, aut_id = ut_id task,
                       aut_process_instance_id = ut_process_id task, aut_data = config \<rparr>
                    # converted)))"

definition getUserTasksForProcessModel ::
  "datastore \<Rightarrow> iamServices \<Rightarrow> string \<Rightarrow> string \<Rightarrow> error + adapterUserTask list" where
  "getUserTasksForProcessModel ds iam context processModelKey =
     (case resolveExecutionContext iam context of
        Inl e \<Rightarrow> Inl e
      | Inr executionContext \<Rightarrow>
          (case getAccessibleUserTasksForProcessModel ds iam executionContext processModelKey of
             Inl e \<Rightarrow> Inl e
           | Inr tasks \<Rightarrow> userTaskEntitiesToUserTaskList tasks))"

text \<open>The loop of \<^verbatim>\<open>getUserTasksForCorrelation\<close> that concatenates the accessible lane ids.\<close>

fun getUserTasksForCorrelation_laneIds ::
  "(string \<Rightarrow> error + string list) \<Rightarrow> string list \<Rightarrow> string list \<Rightarrow> error + string list" where
  "getUserTasksForCorrelation_laneIds idsOf [] accessibleLaneIds = Inr accessibleLaneIds"
| "getUserTasksForCorrelation_laneIds idsOf (processModelKey # rest) accessibleLaneIds =
     (case idsOf processModelKey of
        Inl e \<Rightarrow> Inl e
      | Inr accessibleLanesInThisProcess \<Rightarrow>
          getUserTasksForCorrelation_laneIds idsOf rest
            (accessibleLaneIds @ accessibleLanesInThisProcess))"

definition getUserTasksForCorrelation ::
  "nat \<Rightarrow> datastore \<Rightarrow> iamServices \<Rightarrow> string \<Rightarrow> string \<Rightarrow> (error + adapterUserTask list) option" where
  "getUserTasksForCorrelation fuel ds iam context correlationId =
     (case resolveExecutionContext iam context of
        Inl e \<Rightarrow> Some (Inl e)
      | Inr executionContext \<Rightarrow>
          (case getProcessModelKeysForCorrelation fuel ds correlationId of
             None \<Rightarrow> None
           | Some (Inl e) \<Rightarrow> Some (Inl e)
           | Some (Inr processModelsInCorrelation) \<Rightarrow>
               (case getUserTasksForCorrelation_laneIds
                       (getIdsOfLanesThatCanBeAccessed ds iam executionContext)
                       processModelsInCorrelation [] of
                  Inl e \<Rightarrow> Some (Inl e)
                | Inr accessibleLaneIds \<Rightarrow>
                    if length accessibleLaneIds = 0 then Some (Inl ForbiddenError)
                    else
                      (case getUserTasksForCorrelation_priv fuel ds iam executionContext
                              correlationId of
                         None \<Rightarrow> None
                       | Some (Inl e) \<Rightarrow> Some (Inl e)
                       | Some (Inr tasks) \<Rightarrow> Some (userTaskEntitiesToUserTaskList tasks)))))"

definition getUserTasksForProcessModelInCorrelation ::
  "nat \<Rightarrow> datastore \<Rightarrow> iamServices \<Rightarrow> string \<Rightarrow> string \<Rightarrow> string
   \<Rightarrow> (error + adapterUserTask list) option" where
  "getUserTasksForProcessModelInCorrelation fuel ds iam context processModelKey correlationId =
     (case resolveExecutionContext iam context of
        Inl e \<Rightarrow> Some (Inl e)
      | Inr executionContext \<Rightarrow>
          (case processModelBelongsToCorrelation fuel ds correlationId processModelKey of
             None \<Rightarrow> None
           | Some (Inl e) \<Rightarrow> Some (Inl e)
           | Some (Inr belongs) \<Rightarrow>
               if \<not> belongs then Some (Inl NotFoundError)
               else
                 (case getIdsOfLanesThatCanBeAccessed ds iam executionContext processModelKey of
                    Inl e \<Rightarrow> Some (Inl e)
                  | Inr accessibleLaneIds \<Rightarrow>
                      if length accessibleLaneIds = 0 then Some (Inl ForbiddenError)
                      else
                        (case getUserTasksForCorrelation_priv fuel ds iam executionContext
                                correlationId of
                           None \<Rightarrow> None
                         | Some (Inl e) \<Rightarrow> Some (Inl e)
                         | Some (Inr tasks) \<Rightarrow>
                             Some (userTaskEntitiesToUserTaskList
                                     (filter (\<lambda>u. ut_process_processDef_key u = processModelKey)
                                        tasks))))))"


section \<open>The facade-based service (\<^verbatim>\<open>ConsumerApiService\<close>)\<close>

subsection \<open>Engine entities and collaborators\<close>

datatype flowNodeKind = UserTaskNode | EndEventNode | StartEventNode | OtherNode

record FormField =
  ff_id :: string
  ff_label :: string
  ff_type :: string
  ff_defaultValue :: jsval
  ff_preferredControl :: string

record FlowNode =
  fn_id :: string
  fn_kind :: flowNodeKind
  fn_formFields :: "FormField list"

record Process =
  proc_id :: string
  proc_flowNodes :: "FlowNode list"

record ProcessToken =
  tok_processInstanceId :: string
  tok_processModelId :: string
  tok_correlationId :: string
  tok_caller :: "string option"
  tok_payload :: jsval

record FlowNodeInstance =
  fni_flowNodeId :: string
  fni_token :: ProcessToken

text \<open>
  The collaborators of the service, each a function that yields a value or the error it
  rejects with: the IAM service, the process model persistence, the flow node instance
  persistence, and the enum \<^verbatim>\<open>UserTaskFormFieldType\<close> of the contracts package.
\<close>

record engine =
  eng_resolveExecutionContext :: "string \<Rightarrow> error + string"
  getProcessModelById :: "string \<Rightarrow> error + Process"
  queryByCorrelation :: "string \<Rightarrow> error + FlowNodeInstance list"
  querySuspendedByCorrelation :: "string \<Rightarrow> error + FlowNodeInstance list"
  UserTaskFormFieldType :: "string \<Rightarrow> string option"

text \<open>The process model facade: \<^verbatim>\<open>getEndEvents\<close> and \<^verbatim>\<open>getFlowNodeById\<close>.\<close>

definition getEndEvents :: "Process \<Rightarrow> FlowNode list" where
  "getEndEvents processModel = filter (\<lambda>n. fn_kind n = EndEventNode) (proc_flowNodes processModel)"

definition getFlowNodeById :: "Process \<Rightarrow> string \<Rightarrow> FlowNode option" where
  "getFlowNodeById processModel flowNodeId =
     find (\<lambda>n. fn_id n = flowNodeId) (proc_flowNodes processModel)"


subsection \<open>Suspended flow nodes as user tasks\<close>

record UserTaskFormField =
  utf_id :: string
  utf_label :: string
  utf_type :: "string option"
  utf_defaultValue :: jsval
  utf_preferredControl :: string

record UserTask =
  task_key :: string
  task_id :: string
  task_processInstanceId :: string
  task_data :: "UserTaskFormField list"
  task_payload :: jsval

definition convertToConsumerApiFormField :: "engine \<Rightarrow> FormField \<Rightarrow> UserTaskFormField" where
  "convertToConsumerApiFormField eng formField =
     \<lparr> utf_id = ff_id formField, utf_label = ff_label formField,
       utf_type = UserTaskFormFieldType eng (ff_type formField),
       utf_defaultValue = ff_defaultValue formField,
       utf_preferredControl = ff_preferredControl formField \<rparr>"

definition convertToConsumerApiUserTask :: "engine \<Rightarrow> FlowNode \<Rightarrow> FlowNodeInstance \<Rightarrow> UserTask" where
  "convertToConsumerApiUserTask eng task flowNodeInstance =
     \<lparr> task_key = fni_flowNodeId flowNodeInstance,
       task_id = fni_flowNodeId flowNodeInstance,
       task_processInstanceId = tok_processInstanceId (fni_token flowNodeInstance),
       task_data = map (convertToConsumerApiFormField eng) (fn_formFields task),
       task_payload = tok_payload (fni_token flowNodeInstance) \<rparr>"

text \<open>
  \<^verbatim>\<open>_convertSuspendedFlowNodeToUserTask\<close>; \<open>Inr None\<close> is the \<^verbatim>\<open>undefined\<close> returned for a
  flow node that is no user task.
\<close>

definition convertSuspendedFlowNodeToUserTask ::
  "engine \<Rightarrow> FlowNodeInstance \<Rightarrow> error + UserTask option" where
  "convertSuspendedFlowNodeToUserTask eng flowNodeInstance =
     (case getProcessModelById eng (tok_processModelId (fni_token flowNodeInstance)) of
        Inl e \<Rightarrow> Inl e
      | Inr processModel \<Rightarrow>
          (case getFlowNodeById processModel (fni_flowNodeId flowNodeInstance) of
             None \<Rightarrow> Inr None
           | Some node \<Rightarrow>
               (if fn_kind node \<noteq> UserTaskNode then Inr None
                else Inr (Some (convertToConsumerApiUserTask eng node flowNodeInstance)))))"

fun svc_getUserTasksForProcessModelInCorrelation_loop ::
  "engine \<Rightarrow> string \<Rightarrow> FlowNodeInstance list \<Rightarrow> UserTask list \<Rightarrow> error + UserTask list" where
  "svc_getUserTasksForProcessModelInCorrelation_loop eng processModelId [] suspendedUserTasks =
     Inr suspendedUserTasks"
| "svc_getUserTasksForProcessModelInCorrelation_loop eng processModelId (suspendedFlowNode # rest)
     suspendedUserTasks =
     (if tok_processModelId (fni_token suspendedFlowNode) \<noteq> processModelId then
        svc_getUserTasksForProcessModelInCorrelation_loop eng processModelId rest suspendedUserTasks
      else
        (case convertSuspendedFlowNodeToUserTask eng suspendedFlowNode of
           Inl e \<Rightarrow> Inl e
         | Inr None \<Rightarrow>
             svc_getUserTasksForProcessModelInCorrelation_loop eng processModelId rest
               suspendedUserTasks
         | Inr (Some task) \<Rightarrow>
             svc_getUserTasksForProcessModelInCorrelation_loop eng processModelId rest
               (suspendedUserTasks @ [task])))"

text \<open>\<^verbatim>\<open>getUserTasksForProcessModelInCorrelation\<close> of the service.\<close>

definition svc_getUserTasksForProcessModelInCorrelation ::
  "engine \<Rightarrow> string \<Rightarrow> string \<Rightarrow> string \<Rightarrow> error + UserTask list" where
  "svc_getUserTasksForProcessModelInCorrelation eng context processModelId correlationId =
     (case querySuspendedByCorrelation eng correlationId of
        Inl e \<Rightarrow> Inl e
      | Inr suspendedFlowNodes \<Rightarrow>
          svc_getUserTasksForProcessModelInCorrelation_loop eng processModelId
            suspendedFlowNodes [])"

subsection \<open>Finishing a user task\<close>

text \<open>
  \<^verbatim>\<open>_getUserTaskResultFromUserTaskConfig\<close>. The service and the adapter carry the same
  method; they differ only in the name of the property (\<^verbatim>\<open>formFields\<close>, \<^verbatim>\<open>form_fields\<close>),
  which is the first argument here. The disjunction is evaluated left to right, as
  \<^verbatim>\<open>||\<close> does.
\<close>

definition userTaskResultFromProperty :: "string \<Rightarrow> jsval \<Rightarrow> error + jsval" where
  "userTaskResultFromProperty prop finishedTask =
     (if finishedTask = JUndefined then Inl BadRequestError
      else
        (case getProperty finishedTask prop of
           Inl e \<Rightarrow> Inl e
         | Inr formFields \<Rightarrow>
             (if formFields = JUndefined \<or> typeof formFields \<noteq> ''object'' \<or> isArray formFields
              then Inl BadRequestError
              else
                (case objectKeys formFields of
                   Inl e \<Rightarrow> Inl e
                 | Inr keys \<Rightarrow>
                     (if length keys = 0 then Inl BadRequestError else Inr formFields)))))"

definition getUserTaskResultFromUserTaskConfig :: "jsval \<Rightarrow> error + jsval" where
  "getUserTaskResultFromUserTaskConfig finishedTask =
     userTaskResultFromProperty ''formFields'' finishedTask"

definition adapter_getUserTaskResultFromUserTaskConfig :: "jsval \<Rightarrow> error + jsval" where
  "adapter_getUserTaskResultFromUserTaskConfig finishedTask =
     userTaskResultFromProperty ''form_fields'' finishedTask"

text \<open>
  The event aggregator is observed through the calls made on it, in order. The promise
  \<^verbatim>\<open>finishUserTask\<close> returns is either rejected or pending until the subscribed event
  arrives.
\<close>

datatype eventAggregatorCall =
    SubscribeOnce string
  | Publish string jsval

datatype finishPromise =
    Rejected error
  | Pending

definition finishedChannel :: "UserTask \<Rightarrow> string" where
  "finishedChannel task = ''/processengine/node/'' @ task_id task @ ''/finished''"

definition finishChannel :: "UserTask \<Rightarrow> string" where
  "finishChannel task = ''/processengine/node/'' @ task_id task @ ''/finish''"

definition finishMessage :: "jsval \<Rightarrow> jsval" where
  "finishMessage resultForProcessEngine =
     JObject [(''data'', JObject [(''token'', resultForProcessEngine)])]"

text \<open>
  \<^verbatim>\<open>finishUserTask\<close> of the service: \<open>calls\<close> are the calls the event aggregator has seen
  before, the second component of the result the calls it has seen afterwards.
\<close>

definition finishUserTask ::
  "engine \<Rightarrow> eventAggregatorCall list \<Rightarrow> string \<Rightarrow> string \<Rightarrow> string \<Rightarrow> string \<Rightarrow> jsval
   \<Rightarrow> finishPromise \<times> eventAggregatorCall list" where
  "finishUserTask eng calls context processModelId correlationId userTaskId userTaskResult =
     (case eng_resolveExecutionContext eng context of
        Inl e \<Rightarrow> (Rejected e, calls)
      | Inr executionContext \<Rightarrow>
          (case svc_getUserTasksForProcessModelInCorrelation eng context processModelId
                  correlationId of
             Inl e \<Rightarrow> (Rejected e, calls)
           | Inr tasks \<Rightarrow>
               (case find (\<lambda>task. task_key task = userTaskId) tasks of
                  None \<Rightarrow> (Rejected NotFoundError, calls)
                | Some task \<Rightarrow>
                    (case getUserTaskResultFromUserTaskConfig userTaskResult of
                       Inl e \<Rightarrow> (Rejected e, calls)
                     | Inr resultForProcessEngine \<Rightarrow>
                         (Pending,
                          calls @ [SubscribeOnce (finishedChannel task),
                                   Publish (finishChannel task)
                                     (finishMessage resultForProcessEngine)])))))"

subsection \<open>The result of a correlation\<close>

text \<open>
  \<^verbatim>\<open>getProcessResultForCorrelation\<close> exists in two generations. The earlier one merges the
  token payloads into one object with \<^verbatim>\<open>Object.assign\<close> and tests
  \<^verbatim>\<open>token.caller === undefined\<close>.
\<close>

definition isEndEventInstance_merged :: "FlowNode list \<Rightarrow> string \<Rightarrow> FlowNodeInstance \<Rightarrow> bool" where
  "isEndEventInstance_merged endEvents processModelId flowNodeInstance =
     ((\<exists>endEvent \<in> set endEvents. fn_id endEvent = fni_flowNodeId flowNodeInstance)
      \<and> tok_caller (fni_token flowNodeInstance) = None
      \<and> tok_processModelId (fni_token flowNodeInstance) = processModelId)"

definition getProcessResultForCorrelation_merged ::
  "engine \<Rightarrow> string \<Rightarrow> string \<Rightarrow> string \<Rightarrow> error + jsObject" where
  "getProcessResultForCorrelation_merged eng context correlationId processModelId =
     (case getProcessModelById eng processModelId of
        Inl e \<Rightarrow> Inl e
      | Inr processModel \<Rightarrow>
          (case queryByCorrelation eng correlationId of
             Inl e \<Rightarrow> Inl e
           | Inr flowNodeInstances \<Rightarrow>
               (let endEventInstances =
                      filter (isEndEventInstance_merged (getEndEvents processModel) processModelId)
                        flowNodeInstances
                in Inr (foldl (\<lambda>correlationResult endEventInstance.
                                 objectAssign correlationResult
                                   (tok_payload (fni_token endEventInstance)))
                          emptyObject endEventInstances))))"

text \<open>
  The later generation lists one result per end-event instance, tests \<^verbatim>\<open>!token.caller\<close>
  (so the empty string counts as no caller) and fails with \<^verbatim>\<open>NotFoundError\<close> when the
  correlation has no flow node instances at all.
\<close>

record CorrelationResult =
  cr_correlationId :: string
  cr_endEventId :: string
  cr_tokenPayload :: jsval

definition isEndEventInstance_listed :: "FlowNode list \<Rightarrow> string \<Rightarrow> FlowNodeInstance \<Rightarrow> bool" where
  "isEndEventInstance_listed endEvents processModelId flowNodeInstance =
     ((\<exists>endEvent \<in> set endEvents. fn_id endEvent = fni_flowNodeId flowNodeInstance)
      \<and> (tok_caller (fni_token flowNodeInstance) = None
           \<or> tok_caller (fni_token flowNodeInstance) = Some '''')
      \<and> tok_processModelId (fni_token flowNodeInstance) = processModelId)"

definition getProcessResultForCorrelation_listed ::
  "engine \<Rightarrow> string \<Rightarrow> string \<Rightarrow> string \<Rightarrow> error + CorrelationResult list" where
  "getProcessResultForCorrelation_listed eng context correlationId processModelId =
     (case getProcessModelById eng processModelId of
        Inl e \<Rightarrow> Inl e
      | Inr processModel \<Rightarrow>
          (case queryByCorrelation eng correlationId of
             Inl e \<Rightarrow> Inl e
           | Inr flowNodeInstances \<Rightarrow>
               (if length flowNodeInstances = 0 then Inl NotFoundError
                else
                  Inr (map (\<lambda>endEventInstance.
                              \<lparr> cr_correlationId = tok_correlationId (fni_token endEventInstance),
                                cr_endEventId = fni_flowNodeId endEventInstance,
                                cr_tokenPayload = tok_payload (fni_token endEventInstance) \<rparr>)
                         (filter (isEndEventInstance_listed (getEndEvents processModel)
                                    processModelId)
                            flowNodeInstances)))))"

section \<open>Notions used to state the properties\<close>

text \<open>
  The processes \<^verbatim>\<open>_getSubProcessInstances\<close> finds for one parent: the composition of the
  two queries it makes.
\<close>

definition calledProcesses :: "datastore \<Rightarrow> string \<Rightarrow> processEntity list" where
  "calledProcesses ds processInstanceId =
     getCalledProcessesViaCallerIds ds
       (map ni_id (getCallActivitiesForProcessInstance ds processInstanceId))"

text \<open>
  The same relation in the words of the data model: \<open>q\<close> is a sub-process instance of
  the instance \<open>parent\<close> when its \<^verbatim>\<open>callerId\<close> is the id of a call-activity node instance
  of \<open>parent\<close>. The call graph relates the id of a sub-process instance to the id of its
  parent; the transitively discovered sub-process instances of an instance are the
  sub-process instances of it and of everything below it.
\<close>

definition isSubInstanceOf :: "datastore \<Rightarrow> processEntity \<Rightarrow> string \<Rightarrow> bool" where
  "isSubInstanceOf ds q parent =
     (q \<in> set (processes ds)
      \<and> (\<exists>n \<in> set (nodeInstances ds).
            ni_process n = parent \<and> ni_type n = callActivity \<and> p_callerId q = Some (ni_id n)))"

definition callGraph :: "datastore \<Rightarrow> (string \<times> string) set" where
  "callGraph ds = {(p_id q, parent) | q parent. isSubInstanceOf ds q parent}"

definition transitiveSubProcesses :: "datastore \<Rightarrow> string \<Rightarrow> processEntity set" where
  "transitiveSubProcesses ds processInstanceId =
     {q. \<exists>a. (a, processInstanceId) \<in> (callGraph ds)\<^sup>* \<and> isSubInstanceOf ds q a}"

text \<open>
  What one process instance contributes to the aggregation of a correlation's user tasks:
  its accessible tasks, or nothing when the per-instance call fails.
\<close>

definition contributedTasks :: "(processEntity \<Rightarrow> error + userTaskEntity list) \<Rightarrow> processEntity \<Rightarrow> userTaskEntity list" where
  "contributedTasks forInstance p = (case forInstance p of Inr tasks \<Rightarrow> tasks | Inl e \<Rightarrow> [])"

text \<open>
  A \<^verbatim>\<open>formFields\<close> value that is \<^verbatim>\<open>undefined\<close>, of a type other than \<^verbatim>\<open>object\<close>, an array,
  or an object without keys.
\<close>

definition malformedFormFields :: "jsval \<Rightarrow> bool" where
  "malformedFormFields formFields =
     (formFields = JUndefined \<or> typeof formFields \<noteq> ''object'' \<or> isArray formFields
      \<or> formFields = JObject [])"

text \<open>
  A flow node instance contributes to the result of a correlation when its flow node is an
  end event of the requested process model, its token belongs to that process model and
  the token has no caller (\<^verbatim>\<open>undefined\<close> for the merging generation, falsy for the listing
  one). \<open>payloadProperties\<close> are the own enumerable properties of its payload, the ones
  \<^verbatim>\<open>Object.assign\<close> writes to its target.
\<close>

definition isEndEventOf :: "Process \<Rightarrow> FlowNodeInstance \<Rightarrow> bool" where
  "isEndEventOf processModel flowNodeInstance =
     (\<exists>n \<in> set (proc_flowNodes processModel).
        fn_kind n = EndEventNode \<and> fn_id n = fni_flowNodeId flowNodeInstance)"

definition callerUndefined :: "string option \<Rightarrow> bool" where
  "callerUndefined caller = (caller = None)"

definition callerFalsy :: "string option \<Rightarrow> bool" where
  "callerFalsy caller = (caller = None \<or> caller = Some [])"

definition contributesToResult ::
  "(string option \<Rightarrow> bool) \<Rightarrow> Process \<Rightarrow> string \<Rightarrow> FlowNodeInstance \<Rightarrow> bool" where
  "contributesToResult noCaller processModel processModelId flowNodeInstance =
     (isEndEventOf processModel flowNodeInstance
      \<and> tok_processModelId (fni_token flowNodeInstance) = processModelId
      \<and> noCaller (tok_caller (fni_token flowNodeInstance)))"

definition payloadProperties :: "FlowNodeInstance \<Rightarrow> (string \<rightharpoonup> jsval)" where
  "payloadProperties flowNodeInstance =
     map_of (ownProperties (tok_payload (fni_token flowNodeInstance)))"


section \<open>Example data\<close>

text \<open>The concrete inputs at which the properties below are evaluated.\<close>

definition referencesFlowNode :: "string \<Rightarrow> lane \<Rightarrow> bool" where
  "referencesFlowNode elementId l =
     (case flowNodeRef l of None \<Rightarrow> False | Some refs \<Rightarrow> elementId \<in> set refs)"

text \<open>
  Two sibling lanes: \<open>A\<close> has a child lane set (lane \<open>B\<close> with node \<open>M\<close>), \<open>C\<close> has none
  and references node \<open>N\<close>.
\<close>

definition siblingLaneSet :: laneSet where
  "siblingLaneSet =
     LaneSet [Lane ''A'' (Some ''x'')
                (Some (LaneSet [Lane ''B'' (Some ''y'') None (Some [''M''])])) None,
              Lane ''C'' (Some ''z'') None (Some [''N''])]"

definition siblingDefinitions :: IDefinition where
  "siblingDefinitions =
     \<lparr> rootElements = [\<lparr> re_type = ''bpmn:Process'', re_laneSets = Some [siblingLaneSet] \<rparr>] \<rparr>"

text \<open>
  Lanes without a name (\<open>L1\<close>, \<open>L4\<close>) and with the empty name (\<open>L2\<close>) next to named
  lanes (\<open>L3\<close>, \<open>L5\<close>).
\<close>

definition unnamedLaneSet :: laneSet where
  "unnamedLaneSet =
     LaneSet [Lane ''L1'' None None (Some [''T1'']),
              Lane ''L2'' (Some '''') None None,
              Lane ''L3'' (Some ''clerk'')
                (Some (LaneSet [Lane ''L4'' None None None,
                                Lane ''L5'' (Some ''clerk'') None (Some [''T2''])])) None]"

text \<open>A datastore in which correlation \<open>c1\<close> has one process instance, a sub-process.\<close>

definition subOnlyDatastore :: datastore where
  "subOnlyDatastore =
     \<lparr> processDefs = [],
       processes = [\<lparr> p_id = ''sub1'', p_key = ''child'', p_correlationId = ''c1'',
                      p_callerId = Some ''call1'', p_isSubProcess = True,
                      p_processDef = \<lparr> pd_key = ''child'', pd_xml = None \<rparr> \<rparr>],
       nodeInstances = [], nodeDefs = [], userTasks = [] \<rparr>"

text \<open>
  A main instance \<open>m\<close> with two call activities, whose sub-process instances are \<open>a\<close>
  and \<open>b\<close>; \<open>a\<close> has a call activity of its own with the nested sub-process instance
  \<open>n\<close>.
\<close>

definition pMain :: processEntity where
  "pMain = \<lparr> p_id = ''m'', p_key = ''order'', p_correlationId = ''c1'', p_callerId = None,
             p_isSubProcess = False, p_processDef = \<lparr> pd_key = ''order'', pd_xml = None \<rparr> \<rparr>"

definition pA :: processEntity where
  "pA = \<lparr> p_id = ''a'', p_key = ''billing'', p_correlationId = ''c1'', p_callerId = Some ''ca1'',
          p_isSubProcess = True, p_processDef = \<lparr> pd_key = ''billing'', pd_xml = None \<rparr> \<rparr>"

definition pB :: processEntity where
  "pB = \<lparr> p_id = ''b'', p_key = ''shipping'', p_correlationId = ''c1'', p_callerId = Some ''ca2'',
          p_isSubProcess = True, p_processDef = \<lparr> pd_key = ''shipping'', pd_xml = None \<rparr> \<rparr>"

definition pN :: processEntity where
  "pN = \<lparr> p_id = ''n'', p_key = ''dunning'', p_correlationId = ''c1'', p_callerId = Some ''ca3'',
          p_isSubProcess = True, p_processDef = \<lparr> pd_key = ''dunning'', pd_xml = None \<rparr> \<rparr>"

definition nestedDatastore :: datastore where
  "nestedDatastore =
     \<lparr> processDefs = [],
       processes = [pN, pA, pMain, pB],
       nodeInstances =
         [\<lparr> ni_id = ''ca1'', ni_process = ''m'', ni_type = callActivity \<rparr>,
          \<lparr> ni_id = ''ut1'', ni_process = ''m'', ni_type = userTask \<rparr>,
          \<lparr> ni_id = ''ca2'', ni_process = ''m'', ni_type = callActivity \<rparr>,
          \<lparr> ni_id = ''ca3'', ni_process = ''a'', ni_type = callActivity \<rparr>],
       nodeDefs = [], userTasks = [] \<rparr>"

definition nestedRank :: "string \<Rightarrow> nat" where
  "nestedRank i = (if i = ''m'' then 0 else if i = ''a'' then 1 else 2)"

text \<open>
  A correlation \<open>c1\<close> of two process models: the main instance \<open>m\<close> of \<open>order\<close> (one
  lane, claim \<open>clerk\<close>) calls the sub-process instance \<open>s\<close> of \<open>billing\<close> (one lane,
  claim \<open>accountant\<close>); each has a waiting user task. The identity \<open>alice\<close> holds the
  claim \<open>clerk\<close> only, \<open>bob\<close> holds none. In \<open>brokenDatastore\<close> the process definition
  of \<open>billing\<close> is missing.
\<close>

definition orderDefinitions :: IDefinition where
  "orderDefinitions =
     \<lparr> rootElements =
         [\<lparr> re_type = ''bpmn:Collaboration'', re_laneSets = None \<rparr>,
          \<lparr> re_type = ''bpmn:Process'',
            re_laneSets = Some [LaneSet [Lane ''Lane_Clerk'' (Some ''clerk'') None
                                           (Some [''Task_Check''])]] \<rparr>] \<rparr>"

definition billingDefinitions :: IDefinition where
  "billingDefinitions =
     \<lparr> rootElements =
         [\<lparr> re_type = ''bpmn:Process'',
            re_laneSets = Some [LaneSet [Lane ''Lane_Accountant'' (Some ''accountant'') None
                                           (Some [''Task_Bill''])]] \<rparr>] \<rparr>"

definition orderDef :: processDefEntity where
  "orderDef = \<lparr> pd_key = ''order'', pd_xml = Some orderDefinitions \<rparr>"

definition billingDef :: processDefEntity where
  "billingDef = \<lparr> pd_key = ''billing'', pd_xml = Some billingDefinitions \<rparr>"

definition tMain :: processEntity where
  "tMain = \<lparr> p_id = ''m'', p_key = ''order'', p_correlationId = ''c1'', p_callerId = None,
             p_isSubProcess = False, p_processDef = orderDef \<rparr>"

definition tSub :: processEntity where
  "tSub = \<lparr> p_id = ''s'', p_key = ''billing'', p_correlationId = ''c1'',
            p_callerId = Some ''ca1'', p_isSubProcess = True, p_processDef = billingDef \<rparr>"

definition checkField :: NodeDefFormField where
  "checkField = \<lparr> ndf_id = ''approved'', ndf_label = ''Approved'', ndf_type = ''boolean'',
                  ndf_defaultValue = JBool False \<rparr>"

definition taskCheck :: userTaskEntity where
  "taskCheck = \<lparr> ut_id = ''u1'', ut_key = ''Task_Check'', ut_state = ''wait'',
                 ut_process_id = ''m'', ut_process_processDef_key = ''order'',
                 ut_extensions = Some (Some [checkField]) \<rparr>"

definition taskBill :: userTaskEntity where
  "taskBill = \<lparr> ut_id = ''u2'', ut_key = ''Task_Bill'', ut_state = ''wait'',
                ut_process_id = ''s'', ut_process_processDef_key = ''billing'',
                ut_extensions = Some (Some [checkField]) \<rparr>"

definition taskDatastore :: datastore where
  "taskDatastore =
     \<lparr> processDefs = [orderDef, billingDef],
       processes = [tMain, tSub],
       nodeInstances = [\<lparr> ni_id = ''ca1'', ni_process = ''m'', ni_type = callActivity \<rparr>],
       nodeDefs = [\<lparr> nd_key = ''Call_Billing'', nd_type = callActivity,
                     nd_processDef_key = ''order'', nd_subProcessKey = ''billing'' \<rparr>],
       userTasks = [taskCheck, taskBill] \<rparr>"

definition brokenDatastore :: datastore where
  "brokenDatastore = taskDatastore \<lparr> processDefs := [orderDef] \<rparr>"

definition clerkIam :: iamServices where
  "clerkIam =
     \<lparr> resolveExecutionContext = (\<lambda>token. Inr token),
       hasClaim = (\<lambda>identity claim. identity = ''alice'' \<and> claim = ''clerk'') \<rparr>"

text \<open>
  The process model \<open>order\<close> as the facade-based service sees it: a user task
  \<open>Task_Check\<close>, suspended in correlation \<open>c1\<close>, and two end events. Correlation \<open>c2\<close>
  has three end-event instances; the token of \<open>endCalled\<close> has a caller.
\<close>

definition approvedField :: FormField where
  "approvedField = \<lparr> ff_id = ''approved'', ff_label = ''Approved'', ff_type = ''boolean'',
                     ff_defaultValue = JBool False, ff_preferredControl = ''checkbox'' \<rparr>"

definition orderProcess :: Process where
  "orderProcess =
     \<lparr> proc_id = ''order'',
       proc_flowNodes =
         [\<lparr> fn_id = ''Start_1'', fn_kind = StartEventNode, fn_formFields = [] \<rparr>,
          \<lparr> fn_id = ''Task_Check'', fn_kind = UserTaskNode, fn_formFields = [approvedField] \<rparr>,
          \<lparr> fn_id = ''End_Ok'', fn_kind = EndEventNode, fn_formFields = [] \<rparr>,
          \<lparr> fn_id = ''End_Rejected'', fn_kind = EndEventNode, fn_formFields = [] \<rparr>] \<rparr>"

definition suspendedCheck :: FlowNodeInstance where
  "suspendedCheck =
     \<lparr> fni_flowNodeId = ''Task_Check'',
       fni_token = \<lparr> tok_processInstanceId = ''m'', tok_processModelId = ''order'',
                     tok_correlationId = ''c1'', tok_caller = None,
                     tok_payload = JObject [(''amount'', JNumber 5)] \<rparr> \<rparr>"

definition endOk :: FlowNodeInstance where
  "endOk =
     \<lparr> fni_flowNodeId = ''End_Ok'',
       fni_token = \<lparr> tok_processInstanceId = ''m'', tok_processModelId = ''order'',
                     tok_correlationId = ''c2'', tok_caller = None,
                     tok_payload = JObject [(''approved'', JBool True), (''by'', JString ''alice'')] \<rparr> \<rparr>"

definition endRejected :: FlowNodeInstance where
  "endRejected =
     \<lparr> fni_flowNodeId = ''End_Rejected'',
       fni_token = \<lparr> tok_processInstanceId = ''m'', tok_processModelId = ''order'',
                     tok_correlationId = ''c2'', tok_caller = None,
                     tok_payload = JObject [(''approved'', JBool False)] \<rparr> \<rparr>"

definition endCalled :: FlowNodeInstance where
  "endCalled =
     \<lparr> fni_flowNodeId = ''End_Ok'',
       fni_token = \<lparr> tok_processInstanceId = ''s'', tok_processModelId = ''order'',
                     tok_correlationId = ''c2'', tok_caller = Some ''m'',
                     tok_payload = JObject [(''nested'', JBool True)] \<rparr> \<rparr>"

text \<open>
  Correlation \<open>c3\<close> has three end-event instances as well: the caller of \<open>doneOk\<close> is
  \<^verbatim>\<open>undefined\<close>, that of \<open>doneCalled\<close> is the non-empty string \<open>m\<close>, that of \<open>doneEmpty\<close> is the
  empty string.
\<close>

definition doneOk :: FlowNodeInstance where
  "doneOk =
     \<lparr> fni_flowNodeId = ''End_Ok'',
       fni_token = \<lparr> tok_processInstanceId = ''m'', tok_processModelId = ''order'',
                     tok_correlationId = ''c3'', tok_caller = None,
                     tok_payload = JObject [(''approved'', JBool True)] \<rparr> \<rparr>"

definition doneCalled :: FlowNodeInstance where
  "doneCalled =
     \<lparr> fni_flowNodeId = ''End_Ok'',
       fni_token = \<lparr> tok_processInstanceId = ''s'', tok_processModelId = ''order'',
                     tok_correlationId = ''c3'', tok_caller = Some ''m'',
                     tok_payload = JObject [(''nested'', JBool True)] \<rparr> \<rparr>"

definition doneEmpty :: FlowNodeInstance where
  "doneEmpty =
     \<lparr> fni_flowNodeId = ''End_Rejected'',
       fni_token = \<lparr> tok_processInstanceId = ''m'', tok_processModelId = ''order'',
                     tok_correlationId = ''c3'', tok_caller = Some '''',
                     tok_payload = JObject [(''approved'', JBool False),
                                            (''reason'', JString ''late'')] \<rparr> \<rparr>"

definition orderEngine :: engine where
  "orderEngine =
     \<lparr> eng_resolveExecutionContext = (\<lambda>token. Inr token),
       getProcessModelById = (\<lambda>i. if i = ''order'' then Inr orderProcess else Inl NotFoundError),
       queryByCorrelation =
         (\<lambda>c. if c = ''c1'' then Inr [suspendedCheck]
              else if c = ''c2'' then Inr [endOk, endCalled, endRejected]
              else if c = ''c3'' then Inr [doneOk, doneCalled, doneEmpty] else Inr []),
       querySuspendedByCorrelation = (\<lambda>c. if c = ''c1'' then Inr [suspendedCheck] else Inr []),
       UserTaskFormFieldType = (\<lambda>t. if t = ''boolean'' then Some ''boolean'' else None) \<rparr>"

definition checkTask :: UserTask where
  "checkTask = convertToConsumerApiUserTask orderEngine
                 \<lparr> fn_id = ''Task_Check'', fn_kind = UserTaskNode, fn_formFields = [approvedField] \<rparr>
                 suspendedCheck"

text \<open>
  The same engine with a flow node instance persistence that rejects the query for
  suspended flow nodes, and with an IAM service that rejects the resolution of the
  execution context.
\<close>

definition offlineEngine :: engine where
  "offlineEngine =
     orderEngine \<lparr> querySuspendedByCorrelation := (\<lambda>c. Inl InternalServerError) \<rparr>"

definition unauthenticatedEngine :: engine where
  "unauthenticatedEngine =
     orderEngine \<lparr> eng_resolveExecutionContext := (\<lambda>token. Inl GenericError) \<rparr>"


section \<open>Properties\<close>

subsection \<open>Lane lookup\<close>

text \<open>
  C1. The claim: the lookup attributes a flow node to the innermost lane that references
  it, whenever some lane of the tree references it. The code does not: in
  \<open>siblingLaneSet\<close> lane \<open>C\<close> is the only lane that references node \<open>N\<close>, and the lookup
  yields \<^verbatim>\<open>undefined\<close>, because the first lane has a child lane set and the loop returns
  what the recursion into that child yields.
\<close>

theorem C1_sibling_lane_not_found:
  "map lane_id (filter (referencesFlowNode ''N'') (lanesOfTree (Some siblingLaneSet))) = [''C'']
   \<and> getClosestLaneIdToElement siblingLaneSet ''N'' = None
   \<and> getLaneIdForElement siblingDefinitions ''N'' = None"
  by (simp add: getLaneIdForElement_def siblingDefinitions_def siblingLaneSet_def
        referencesFlowNode_def)

subsection \<open>Accessible lanes\<close>

lemma accessed_lanes_named:
  "l \<in> set (fst (getLanesThatCanBeAccessed hc t)) \<Longrightarrow>
     lane_name l \<noteq> None \<and> lane_name l \<noteq> Some ''''"
  "l \<in> set (fst (getLanesThatCanBeAccessed_loop hc ls)) \<Longrightarrow>
     lane_name l \<noteq> None \<and> lane_name l \<noteq> Some ''''"
  by (induction hc t and hc ls rule: getLanesThatCanBeAccessed_getLanesThatCanBeAccessed_loop.induct)
     (auto split: if_splits)

lemma accessed_lanes_in_tree:
  "set (fst (getLanesThatCanBeAccessed hc t)) \<subseteq> set (lanesOfTree t)"
  "set (fst (getLanesThatCanBeAccessed_loop hc ls)) \<subseteq> set (lanesOfList ls)"
  by (induction hc t and hc ls rule: getLanesThatCanBeAccessed_getLanesThatCanBeAccessed_loop.induct)
     (auto split: if_splits)

lemma unnamed_lane_skipped:
  "n = None \<or> n = Some '''' \<Longrightarrow>
   getLanesThatCanBeAccessed_loop hc (Lane i n c r # rest) =
     (fst (getLanesThatCanBeAccessed_loop hc rest),
      i # snd (getLanesThatCanBeAccessed_loop hc rest))"
  by auto

lemma unnamed_lane_id_absent:
  assumes d: "distinct (map lane_id (lanesOfTree t))"
    and l: "l \<in> set (lanesOfTree t)"
    and n: "lane_name l = None \<or> lane_name l = Some ''''"
  shows "lane_id l \<notin> set (map lane_id (fst (getLanesThatCanBeAccessed hc t)))"
proof
  assume "lane_id l \<in> set (map lane_id (fst (getLanesThatCanBeAccessed hc t)))"
  then obtain l' where l': "l' \<in> set (fst (getLanesThatCanBeAccessed hc t))"
    and eq: "lane_id l' = lane_id l"
    by auto
  from l' accessed_lanes_in_tree(1) have "l' \<in> set (lanesOfTree t)" by blast
  with d l eq have "l' = l" by (meson distinct_map inj_onD)
  with l' accessed_lanes_named(1) n show False by blast
qed

text \<open>
  C3. A lane whose name is \<^verbatim>\<open>undefined\<close> or the empty string is never among the lanes
  \<^verbatim>\<open>_getLanesThatCanBeAccessed\<close> returns, whatever claims the identity holds (\<open>hc\<close> is
  arbitrary); the loop logs a warning for it and goes on with the remaining lanes; and
  where the lanes of the tree have pairwise distinct ids, its id is not among the ids of
  the returned lanes.
\<close>

theorem C3_unnamed_lane_never_accessible:
  "(\<forall>l \<in> set (fst (getLanesThatCanBeAccessed hc t)).
       lane_name l \<noteq> None \<and> lane_name l \<noteq> Some '''')
   \<and> (n = None \<or> n = Some '''' \<longrightarrow>
        getLanesThatCanBeAccessed_loop hc (Lane i n c r # rest) =
          (fst (getLanesThatCanBeAccessed_loop hc rest),
           i # snd (getLanesThatCanBeAccessed_loop hc rest)))
   \<and> (distinct (map lane_id (lanesOfTree t)) \<longrightarrow>
        (\<forall>l \<in> set (lanesOfTree t).
            lane_name l = None \<or> lane_name l = Some '''' \<longrightarrow>
            lane_id l \<notin> set (map lane_id (fst (getLanesThatCanBeAccessed hc t)))))"
  using accessed_lanes_named(1) unnamed_lane_skipped unnamed_lane_id_absent
  by blast

theorem C3_unnamed_lane_never_accessible_witness:
  "distinct (map lane_id (lanesOfTree (Some unnamedLaneSet)))
   \<and> map lane_id (filter (\<lambda>l. lane_name l = None \<or> lane_name l = Some '''')
                    (lanesOfTree (Some unnamedLaneSet))) = [''L1'', ''L2'', ''L4'']
   \<and> map lane_id (fst (getLanesThatCanBeAccessed (\<lambda>claim. True) (Some unnamedLaneSet)))
       = [''L3'', ''L5'']
   \<and> snd (getLanesThatCanBeAccessed (\<lambda>claim. True) (Some unnamedLaneSet))
       = [''L1'', ''L2'', ''L4'']
   \<and> ''L1'' \<notin> set (map lane_id
                       (fst (getLanesThatCanBeAccessed (\<lambda>claim. True) (Some unnamedLaneSet))))
   \<and> ''L2'' \<notin> set (map lane_id
                       (fst (getLanesThatCanBeAccessed (\<lambda>claim. True) (Some unnamedLaneSet))))
   \<and> ''L4'' \<notin> set (map lane_id
                       (fst (getLanesThatCanBeAccessed (\<lambda>claim. True) (Some unnamedLaneSet))))
   \<and> getLanesThatCanBeAccessed_loop (\<lambda>claim. True) [Lane ''L1'' None None (Some [''T1''])]
       = ([], [''L1''])"
  using C3_unnamed_lane_never_accessible
          [of "\<lambda>claim. True" "Some unnamedLaneSet" None "''L1''" None "Some [''T1'']" "[]"]
  by (simp add: unnamedLaneSet_def)

subsection \<open>The main process instance of a correlation\<close>

text \<open>
  C4. The claim: the resolution fails with \<^verbatim>\<open>NotFoundError\<close> whenever the correlation has
  no process instance with \<^verbatim>\<open>isSubProcess = false\<close>. A correlation id that matches nothing
  does fail so; one that matches only sub-process instances passes the emptiness test,
  \<^verbatim>\<open>find\<close> yields \<^verbatim>\<open>undefined\<close>, and reading \<^verbatim>\<open>mainProcess.id\<close> throws a \<^verbatim>\<open>TypeError\<close>.
\<close>

theorem C4_sub_process_only_type_error:
  "filter (\<lambda>p. p_correlationId p = ''c1'' \<and> \<not> p_isSubProcess p) (processes subOnlyDatastore) = []
   \<and> getMainProcessInstanceIdFromCorrelation subOnlyDatastore ''c1'' = Inl TypeError
   \<and> getProcessInstancesForCorrelation fuel subOnlyDatastore ''c1'' = Some (Inl TypeError)
   \<and> getMainProcessInstanceIdFromCorrelation subOnlyDatastore ''c2'' = Inl NotFoundError"
  by (simp add: getMainProcessInstanceIdFromCorrelation_def getProcessInstancesForCorrelation_def
        subOnlyDatastore_def)

subsection \<open>Sub-process discovery\<close>

lemma calledProcesses_iff:
  "q \<in> set (calledProcesses ds parent) \<longleftrightarrow> isSubInstanceOf ds q parent"
  by (auto simp: calledProcesses_def isSubInstanceOf_def getCalledProcessesViaCallerIds_def
        getCallActivitiesForProcessInstance_def filter_empty_conv split: option.splits)

lemma callGraph_called:
  "callGraph ds = {(p_id q, parent) | q parent. q \<in> set (calledProcesses ds parent)}"
  by (simp add: callGraph_def calledProcesses_iff)

lemma transitive_called:
  "transitiveSubProcesses ds pid =
     {q. \<exists>a. (a, pid) \<in> (callGraph ds)\<^sup>* \<and> q \<in> set (calledProcesses ds a)}"
  by (simp add: transitiveSubProcesses_def calledProcesses_iff)

lemma subProcess_loop_cong:
  "(\<And>p. p \<in> set ps \<Longrightarrow> sub p = sub' p) \<Longrightarrow>
   getSubProcessInstances_loop sub ps acc = getSubProcessInstances_loop sub' ps acc"
  by (induction ps arbitrary: acc) (auto split: option.splits)

lemma subProcess_loop_Some:
  "(\<And>p. p \<in> set ps \<Longrightarrow> sub p \<noteq> None) \<Longrightarrow>
   getSubProcessInstances_loop sub ps acc = Some (acc @ concat (map (\<lambda>p. the (sub p)) ps))"
  by (induction ps arbitrary: acc) (auto split: option.splits)

lemma subProcess_loop_SomeD:
  "getSubProcessInstances_loop sub ps acc = Some r \<Longrightarrow>
   (\<forall>p \<in> set ps. sub p \<noteq> None) \<and> r = acc @ concat (map (\<lambda>p. the (sub p)) ps)"
proof (induction ps arbitrary: acc)
  case Nil
  then show ?case by simp
next
  case (Cons p ps)
  then obtain xs where xs: "sub p = Some xs"
    and l: "getSubProcessInstances_loop sub ps (acc @ xs) = Some r"
    by (auto split: option.splits)
  from Cons.IH[OF l] xs show ?case by simp
qed

lemma getSub_Suc:
  "getSubProcessInstances (Suc n) ds pid =
     getSubProcessInstances_loop (\<lambda>process. getSubProcessInstances n ds (p_id process))
       (calledProcesses ds pid) (calledProcesses ds pid)"
  by (simp add: calledProcesses_def Let_def)

lemma getSub_step:
  "getSubProcessInstances n ds pid = Some xs \<Longrightarrow> getSubProcessInstances (Suc n) ds pid = Some xs"
proof (induction n arbitrary: pid xs)
  case 0
  then show ?case by simp
next
  case (Suc n)
  from Suc.prems have l: "getSubProcessInstances_loop (\<lambda>process. getSubProcessInstances n ds (p_id process))
       (calledProcesses ds pid) (calledProcesses ds pid) = Some xs"
    by (simp only: getSub_Suc)
  from subProcess_loop_SomeD[OF l] have ne: "\<forall>p \<in> set (calledProcesses ds pid). getSubProcessInstances n ds (p_id p) \<noteq> None"
    by blast
  have "getSubProcessInstances (Suc n) ds (p_id p) = getSubProcessInstances n ds (p_id p)"
    if "p \<in> set (calledProcesses ds pid)" for p
    using ne that Suc.IH by fastforce
  then have "getSubProcessInstances_loop (\<lambda>process. getSubProcessInstances (Suc n) ds (p_id process))
       (calledProcesses ds pid) (calledProcesses ds pid) = Some xs"
    using l subProcess_loop_cong[of "calledProcesses ds pid" "\<lambda>process. getSubProcessInstances (Suc n) ds (p_id process)"
        "\<lambda>process. getSubProcessInstances n ds (p_id process)" "calledProcesses ds pid"]
    by simp
  then show ?case by (simp only: getSub_Suc)
qed

lemma getSub_mono:
  "getSubProcessInstances n ds pid = Some xs \<Longrightarrow> n \<le> m \<Longrightarrow> getSubProcessInstances m ds pid = Some xs"
  by (induction m) (auto simp: le_Suc_eq simp del: getSubProcessInstances.simps dest: getSub_step)

lemma uniform_fuel:
  "(\<And>q. q \<in> set qs \<Longrightarrow> \<exists>n. getSubProcessInstances n ds (p_id q) \<noteq> None) \<Longrightarrow>
   \<exists>N. \<forall>q \<in> set qs. getSubProcessInstances N ds (p_id q) \<noteq> None"
proof (induction qs)
  case Nil
  then show ?case by simp
next
  case (Cons q qs)
  then obtain N where N: "\<forall>q \<in> set qs. getSubProcessInstances N ds (p_id q) \<noteq> None" by auto
  from Cons.prems[of q] obtain n where n: "getSubProcessInstances n ds (p_id q) \<noteq> None" by auto
  have "\<forall>q' \<in> set (q # qs). getSubProcessInstances (max n N) ds (p_id q') \<noteq> None"
    using N n getSub_mono[of _ ds _ _ "max n N"] by (auto simp: max_def)
  then show ?case by blast
qed

lemma finite_callGraph: "finite (callGraph ds)"
proof -
  have "callGraph ds \<subseteq> (p_id ` set (processes ds)) \<times> (ni_process ` set (nodeInstances ds))"
    by (auto simp: callGraph_called calledProcesses_def getCalledProcessesViaCallerIds_def
        getCallActivitiesForProcessInstance_def split: if_splits option.splits)
  then show ?thesis by (rule finite_subset) simp
qed

lemma getSub_terminates:
  assumes "acyclic (callGraph ds)"
  shows "\<exists>n. getSubProcessInstances n ds pid \<noteq> None"
proof -
  have wf: "wf (callGraph ds)" using finite_callGraph assms by (rule finite_acyclic_wf)
  show ?thesis
  proof (induction pid rule: wf_induct_rule[OF wf])
    case (1 pid)
    have "\<exists>n. getSubProcessInstances n ds (p_id q) \<noteq> None" if "q \<in> set (calledProcesses ds pid)" for q
      using 1[of "p_id q"] that by (auto simp: callGraph_called)
    from uniform_fuel[of "calledProcesses ds pid" ds, OF this]
    obtain N where "\<forall>q \<in> set (calledProcesses ds pid). getSubProcessInstances N ds (p_id q) \<noteq> None"
      by blast
    then have "getSubProcessInstances (Suc N) ds pid \<noteq> None"
      by (simp only: getSub_Suc) (simp add: subProcess_loop_Some)
    then show ?case by blast
  qed
qed

lemma transitive_unfold:
  "transitiveSubProcesses ds pid =
     set (calledProcesses ds pid) \<union> (\<Union>q \<in> set (calledProcesses ds pid). transitiveSubProcesses ds (p_id q))"
proof -
  have r: "(a, pid) \<in> (callGraph ds)\<^sup>* \<longleftrightarrow>
        a = pid \<or> (\<exists>q \<in> set (calledProcesses ds pid). (a, p_id q) \<in> (callGraph ds)\<^sup>*)" for a
  proof
    assume "(a, pid) \<in> (callGraph ds)\<^sup>*"
    then show "a = pid \<or> (\<exists>q \<in> set (calledProcesses ds pid). (a, p_id q) \<in> (callGraph ds)\<^sup>*)"
      by (cases rule: rtranclE) (auto simp: callGraph_called)
  next
    assume "a = pid \<or> (\<exists>q \<in> set (calledProcesses ds pid). (a, p_id q) \<in> (callGraph ds)\<^sup>*)"
    then show "(a, pid) \<in> (callGraph ds)\<^sup>*"
      by (auto simp: callGraph_called intro: rtrancl_into_rtrancl)
  qed
  show ?thesis
    unfolding transitive_called by (auto simp: r)
qed

lemma getSub_set:
  "getSubProcessInstances n ds pid = Some xs \<Longrightarrow> set xs = transitiveSubProcesses ds pid"
proof (induction n arbitrary: pid xs)
  case 0
  then show ?case by simp
next
  case (Suc n)
  let ?sub = "\<lambda>process. getSubProcessInstances n ds (p_id process)"
  from Suc.prems have l: "getSubProcessInstances_loop ?sub
       (calledProcesses ds pid) (calledProcesses ds pid) = Some xs"
    by (simp only: getSub_Suc)
  from subProcess_loop_SomeD[OF l] have ne: "\<forall>p \<in> set (calledProcesses ds pid). ?sub p \<noteq> None"
    and xs: "xs = calledProcesses ds pid @ concat (map (\<lambda>p. the (?sub p)) (calledProcesses ds pid))"
    by blast+
  have "set (the (?sub q)) = transitiveSubProcesses ds (p_id q)" if "q \<in> set (calledProcesses ds pid)" for q
    using ne that Suc.IH by fastforce
  then have "set xs = set (calledProcesses ds pid) \<union> (\<Union>q \<in> set (calledProcesses ds pid). transitiveSubProcesses ds (p_id q))"
    unfolding xs by auto
  then show ?case using transitive_unfold[of ds pid] by simp
qed


lemma main_instance_found:
  assumes "getMainProcessInstanceIdFromCorrelation ds correlationId = Inr mainId"
  shows "\<exists>mainInstance. getProcessInstanceById ds mainId = Inr mainInstance
           \<and> p_id mainInstance = mainId \<and> mainInstance \<in> set (processes ds)"
proof -
  from assms obtain m where m: "m \<in> set (processes ds)" and mid: "p_id m = mainId"
    by (auto simp: getMainProcessInstanceIdFromCorrelation_def Let_def find_Some_iff
          split: if_splits option.splits dest!: nth_mem)
  then have "find (\<lambda>p. p_id p = mainId) (processes ds) \<noteq> None"
    by (auto simp: find_None_iff)
  then obtain x where x: "find (\<lambda>p. p_id p = mainId) (processes ds) = Some x" by auto
  then have "p_id x = mainId \<and> x \<in> set (processes ds)"
    by (auto simp: find_Some_iff)
  with x show ?thesis by (simp add: getProcessInstanceById_def)
qed

lemma getProcessInstancesForCorrelation_mono:
  "getProcessInstancesForCorrelation n ds correlationId = Some r \<Longrightarrow> n \<le> m \<Longrightarrow>
   getProcessInstancesForCorrelation m ds correlationId = Some r"
  by (auto simp: getProcessInstancesForCorrelation_def split: sum.splits option.splits
        dest: getSub_mono)

text \<open>
  C5. For a correlation whose call graph is acyclic (it is finite, as the datastore is) and
  whose main instance is found: with enough fuel, that is, once the recursion is allowed
  to go deep enough, \<^verbatim>\<open>_getProcessInstancesForCorrelation\<close> returns, and it returns the main
  instance followed by a list whose elements are exactly the transitively discovered
  sub-process instances.
\<close>

theorem C5_sub_process_discovery:
  assumes ac: "acyclic (callGraph ds)"
    and main: "getMainProcessInstanceIdFromCorrelation ds correlationId = Inr mainId"
  shows "\<exists>fuel mainInstance subs.
           (\<forall>n \<ge> fuel. getProcessInstancesForCorrelation n ds correlationId
                          = Some (Inr (mainInstance # subs)))
           \<and> getProcessInstanceById ds mainId = Inr mainInstance
           \<and> p_id mainInstance = mainId
           \<and> set subs = transitiveSubProcesses ds mainId"
proof -
  from main_instance_found[OF main] obtain mainInstance
    where byId: "getProcessInstanceById ds mainId = Inr mainInstance"
      and mid: "p_id mainInstance = mainId" by blast
  from getSub_terminates[OF ac, of mainId] obtain fuel subs
    where subs: "getSubProcessInstances fuel ds mainId = Some subs" by auto
  have "getProcessInstancesForCorrelation n ds correlationId = Some (Inr (mainInstance # subs))"
    if "fuel \<le> n" for n
    using getSub_mono[OF subs that] main byId
    by (simp add: getProcessInstancesForCorrelation_def)
  moreover have "set subs = transitiveSubProcesses ds mainId"
    using subs by (rule getSub_set)
  ultimately show ?thesis using byId mid by blast
qed

lemma nested_called:
  "calledProcesses nestedDatastore i =
     (if i = ''m'' then [pA, pB] else if i = ''a'' then [pN] else [])"
  by (simp add: calledProcesses_def nestedDatastore_def getCalledProcessesViaCallerIds_def
        getCallActivitiesForProcessInstance_def pMain_def pA_def pB_def pN_def)

lemma nested_acyclic: "acyclic (callGraph nestedDatastore)"
proof (rule acyclicI_order[where f = nestedRank])
  fix a b
  assume "(a, b) \<in> callGraph nestedDatastore"
  then show "nestedRank b < nestedRank a"
    by (auto simp: callGraph_called nested_called nestedRank_def pA_def pB_def pN_def
          split: if_splits)
qed

lemma nested_sub_eval:
  "getSubProcessInstances 3 nestedDatastore ''m'' = Some [pA, pB, pN]"
  by (simp add: numeral_3_eq_3 getSub_Suc nested_called pA_def pB_def pN_def
        del: getSubProcessInstances.simps)

lemma nested_eval:
  "getProcessInstancesForCorrelation 3 nestedDatastore ''c1'' = Some (Inr [pMain, pA, pB, pN])"
proof -
  have "getMainProcessInstanceIdFromCorrelation nestedDatastore ''c1'' = Inr ''m''"
    by (simp add: getMainProcessInstanceIdFromCorrelation_def nestedDatastore_def
          pMain_def pA_def pB_def pN_def)
  moreover have "getProcessInstanceById nestedDatastore ''m'' = Inr pMain"
    by (simp add: getProcessInstanceById_def nestedDatastore_def pMain_def pA_def pB_def pN_def)
  ultimately show ?thesis
    using nested_sub_eval by (simp add: getProcessInstancesForCorrelation_def)
qed

text \<open>
  The example of the claim: main instance, two sub-process instances, one nested
  sub-process instance; four instances are returned, the main instance first.
\<close>

theorem C5_sub_process_discovery_witness:
  "acyclic (callGraph nestedDatastore)
   \<and> getMainProcessInstanceIdFromCorrelation nestedDatastore ''c1'' = Inr ''m''
   \<and> getProcessInstancesForCorrelation 3 nestedDatastore ''c1'' = Some (Inr [pMain, pA, pB, pN])
   \<and> transitiveSubProcesses nestedDatastore ''m'' = {pA, pB, pN}"
proof -
  have m: "getMainProcessInstanceIdFromCorrelation nestedDatastore ''c1'' = Inr ''m''"
    by (simp add: getMainProcessInstanceIdFromCorrelation_def nestedDatastore_def
          pMain_def pA_def pB_def pN_def)
  from C5_sub_process_discovery[OF nested_acyclic m] obtain fuel mainInstance subs
    where all: "\<forall>n \<ge> fuel. getProcessInstancesForCorrelation n nestedDatastore ''c1''
                    = Some (Inr (mainInstance # subs))"
      and t: "set subs = transitiveSubProcesses nestedDatastore ''m''"
    by blast
  from all have "getProcessInstancesForCorrelation (fuel + 3) nestedDatastore ''c1''
                    = Some (Inr (mainInstance # subs))" by simp
  moreover have "getProcessInstancesForCorrelation (fuel + 3) nestedDatastore ''c1''
                    = Some (Inr [pMain, pA, pB, pN])"
    using getProcessInstancesForCorrelation_mono[OF nested_eval, of "fuel + 3"] by simp
  ultimately have "subs = [pA, pB, pN]" by simp
  with t have "transitiveSubProcesses nestedDatastore ''m'' = {pA, pB, pN}" by auto
  with nested_acyclic m nested_eval show ?thesis by simp
qed

subsection \<open>Aggregating the user tasks of a correlation\<close>

lemmas task_defs = taskDatastore_def brokenDatastore_def clerkIam_def tMain_def tSub_def taskCheck_def taskBill_def
  checkField_def orderDef_def billingDef_def orderDefinitions_def billingDefinitions_def


lemma tasks_loop_forbidden:
  "\<forall>p \<in> set ps. \<forall>e. f p = Inl e \<longrightarrow> e = ForbiddenError \<Longrightarrow>
   getUserTasksForCorrelation_loop f ps acc = Inr (acc @ concat (map (contributedTasks f) ps))"
proof (induction ps arbitrary: acc)
  case Nil
  then show ?case by simp
next
  case (Cons p ps)
  then have rest: "getUserTasksForCorrelation_loop f ps acc' =
                Inr (acc' @ concat (map (contributedTasks f) ps))" for acc'
    by simp
  show ?case
  proof (cases "f p")
    case (Inl e)
    with Cons.prems have "e = ForbiddenError" by simp
    moreover from Inl have "contributedTasks f p = []" by (simp add: contributedTasks_def)
    ultimately show ?thesis using Inl rest by (simp add: isError_def)
  next
    case (Inr tasks)
    then have "contributedTasks f p = tasks" by (simp add: contributedTasks_def)
    with Inr rest show ?thesis by simp
  qed
qed

lemma tasks_loop_error:
  "\<forall>q \<in> set pre. \<forall>e'. f q = Inl e' \<longrightarrow> e' = ForbiddenError \<Longrightarrow>
   f p = Inl e \<Longrightarrow> e \<noteq> ForbiddenError \<Longrightarrow>
   getUserTasksForCorrelation_loop f (pre @ p # post) acc = Inl e"
proof (induction pre arbitrary: acc)
  case Nil
  then show ?case by (simp add: isError_def)
next
  case (Cons q pre)
  then have rest: "getUserTasksForCorrelation_loop f (pre @ p # post) acc' = Inl e" for acc'
    by simp
  show ?case
  proof (cases "f q")
    case (Inl e')
    with Cons.prems(1) have "e' = ForbiddenError" by simp
    with Inl rest show ?thesis by (simp add: isError_def)
  next
    case (Inr tasks)
    with rest show ?thesis by simp
  qed
qed

text \<open>
  C6. Where the process instances of the correlation are resolved: if every error the
  per-instance call raises is a \<^verbatim>\<open>ForbiddenError\<close>, the aggregation succeeds and returns the
  tasks of the other instances, in order (an instance that failed contributes nothing);
  if some instance raises an error \<open>e\<close> of any other kind, and the instances before it
  raised nothing but \<^verbatim>\<open>ForbiddenError\<close>, the aggregation fails with \<open>e\<close>: no list of
  tasks is returned.
\<close>

theorem C6_forbidden_skipped_other_errors_abort:
  "getProcessInstancesForCorrelation fuel ds correlationId = Some (Inr instances) \<longrightarrow>
   ((\<forall>p \<in> set instances. \<forall>e.
        getAccessibleUserTasksForProcessInstance ds iam ec p = Inl e \<longrightarrow> e = ForbiddenError) \<longrightarrow>
      getUserTasksForCorrelation_priv fuel ds iam ec correlationId =
        Some (Inr (concat (map (contributedTasks (getAccessibleUserTasksForProcessInstance ds iam ec))
                             instances))))
   \<and> (\<forall>pre p post e.
        instances = pre @ p # post \<longrightarrow>
        (\<forall>q \<in> set pre. \<forall>e'.
           getAccessibleUserTasksForProcessInstance ds iam ec q = Inl e' \<longrightarrow> e' = ForbiddenError) \<longrightarrow>
        getAccessibleUserTasksForProcessInstance ds iam ec p = Inl e \<longrightarrow>
        e \<noteq> ForbiddenError \<longrightarrow>
        getUserTasksForCorrelation_priv fuel ds iam ec correlationId = Some (Inl e))"
  using tasks_loop_forbidden[of instances "getAccessibleUserTasksForProcessInstance ds iam ec" "[]"]
    tasks_loop_error[of _ "getAccessibleUserTasksForProcessInstance ds iam ec" _ _ _ "[]"]
  by (simp add: getUserTasksForCorrelation_priv_def)


lemma task_instances:
  "getProcessInstancesForCorrelation 2 taskDatastore ''c1'' = Some (Inr [tMain, tSub])"
  "getProcessInstancesForCorrelation 2 brokenDatastore ''c1'' = Some (Inr [tMain, tSub])"
  by (simp_all add: getProcessInstancesForCorrelation_def
        getMainProcessInstanceIdFromCorrelation_def getProcessInstanceById_def numeral_2_eq_2
        getCallActivitiesForProcessInstance_def getCalledProcessesViaCallerIds_def
        taskDatastore_def brokenDatastore_def tMain_def tSub_def)

lemma task_access:
  "getAccessibleUserTasksForProcessInstance taskDatastore clerkIam ''alice'' tMain = Inr [taskCheck]"
  "getAccessibleUserTasksForProcessInstance taskDatastore clerkIam ''alice'' tSub = Inl ForbiddenError"
  "getAccessibleUserTasksForProcessInstance brokenDatastore clerkIam ''alice'' tMain = Inr [taskCheck]"
  "getAccessibleUserTasksForProcessInstance brokenDatastore clerkIam ''alice'' tSub = Inl NotFoundError"
  by (simp_all add: getAccessibleUserTasksForProcessInstance_def getUserTasksForProcessInstance_def
        getIdsOfLanesThatCanBeAccessed_def getProcessModelByKey_def
        getDefinitionsFromProcessModel_def identityCanAccessUserTask_def getLaneIdForElement_def
        task_defs)

theorem C6_forbidden_skipped_other_errors_abort_witness:
  "getProcessInstancesForCorrelation 2 taskDatastore ''c1'' = Some (Inr [tMain, tSub])
   \<and> getAccessibleUserTasksForProcessInstance taskDatastore clerkIam ''alice'' tMain
       = Inr [taskCheck]
   \<and> getAccessibleUserTasksForProcessInstance taskDatastore clerkIam ''alice'' tSub
       = Inl ForbiddenError
   \<and> getUserTasksForCorrelation_priv 2 taskDatastore clerkIam ''alice'' ''c1''
       = Some (Inr [taskCheck])
   \<and> getProcessInstancesForCorrelation 2 brokenDatastore ''c1'' = Some (Inr [tMain, tSub])
   \<and> getAccessibleUserTasksForProcessInstance brokenDatastore clerkIam ''alice'' tSub
       = Inl NotFoundError
   \<and> getUserTasksForCorrelation_priv 2 brokenDatastore clerkIam ''alice'' ''c1''
       = Some (Inl NotFoundError)"
proof -
  have "getUserTasksForCorrelation_priv 2 taskDatastore clerkIam ''alice'' ''c1''
          = Some (Inr [taskCheck])"
    using C6_forbidden_skipped_other_errors_abort[of 2 taskDatastore "''c1''" "[tMain, tSub]" clerkIam "''alice''"]
      task_instances(1) task_access(1,2)
    by (simp add: contributedTasks_def)
  moreover have "getUserTasksForCorrelation_priv 2 brokenDatastore clerkIam ''alice'' ''c1''
          = Some (Inl NotFoundError)"
    using C6_forbidden_skipped_other_errors_abort[of 2 brokenDatastore "''c1''" "[tMain, tSub]" clerkIam "''alice''", THEN mp,
        OF task_instances(2), THEN conjunct2, rule_format, of "[tMain]" tSub "[]" NotFoundError]
      task_access(3,4)
    by simp
  ultimately show ?thesis using task_instances task_access by simp
qed

subsection \<open>The forbidden gate\<close>

lemma laneIds_loop_empty:
  "\<forall>k \<in> set keys. idsOf k = Inr [] \<Longrightarrow>
   getUserTasksForCorrelation_laneIds idsOf keys acc = Inr acc"
  by (induction keys arbitrary: acc) auto

text \<open>
  C2. If the lanes an identity can access are none in every process model of the
  correlation, \<^verbatim>\<open>getUserTasksForCorrelation\<close> fails with \<^verbatim>\<open>ForbiddenError\<close>, although the
  correlation was found (its process model keys were resolved). Likewise
  \<^verbatim>\<open>getUserTasksForProcessModel\<close> for a process model without accessible lanes, and
  \<^verbatim>\<open>getUserTasksForProcessModelInCorrelation\<close> for such a process model that is part of the
  correlation. A failure carries no task data.
\<close>

theorem C2_forbidden_without_accessible_lanes:
  "(resolveExecutionContext iam context = Inr ec \<longrightarrow>
    getProcessModelKeysForCorrelation fuel ds correlationId = Some (Inr keys) \<longrightarrow>
    (\<forall>k \<in> set keys. getIdsOfLanesThatCanBeAccessed ds iam ec k = Inr []) \<longrightarrow>
    getUserTasksForCorrelation fuel ds iam context correlationId = Some (Inl ForbiddenError))
   \<and> (resolveExecutionContext iam context = Inr ec \<longrightarrow>
    getIdsOfLanesThatCanBeAccessed ds iam ec processModelKey = Inr [] \<longrightarrow>
    getUserTasksForProcessModel ds iam context processModelKey = Inl ForbiddenError)
   \<and> (resolveExecutionContext iam context = Inr ec \<longrightarrow>
    processModelBelongsToCorrelation fuel ds correlationId processModelKey = Some (Inr True) \<longrightarrow>
    getIdsOfLanesThatCanBeAccessed ds iam ec processModelKey = Inr [] \<longrightarrow>
    getUserTasksForProcessModelInCorrelation fuel ds iam context processModelKey correlationId
      = Some (Inl ForbiddenError))"
  using laneIds_loop_empty[of keys "getIdsOfLanesThatCanBeAccessed ds iam ec" "[]"]
  by (simp add: getUserTasksForCorrelation_def getUserTasksForProcessModel_def
        getUserTasksForProcessModelInCorrelation_def getAccessibleUserTasksForProcessModel_def)

lemma task_keys:
  "getProcessModelKeysForCorrelation 2 taskDatastore ''c1'' = Some (Inr [''order'', ''billing''])"
  by (simp add: getProcessModelKeysForCorrelation_def getMainProcessInstanceIdFromCorrelation_def
        getProcessInstanceById_def numeral_2_eq_2 getNodesByTypeForProcessModel_def
        taskDatastore_def tMain_def tSub_def orderDef_def)

lemma task_no_lanes:
  "getIdsOfLanesThatCanBeAccessed taskDatastore clerkIam ''bob'' ''order'' = Inr []"
  "getIdsOfLanesThatCanBeAccessed taskDatastore clerkIam ''bob'' ''billing'' = Inr []"
  by (simp_all add: getIdsOfLanesThatCanBeAccessed_def getProcessModelByKey_def
        getDefinitionsFromProcessModel_def task_defs)

theorem C2_forbidden_without_accessible_lanes_witness:
  "resolveExecutionContext clerkIam ''bob'' = Inr ''bob''
   \<and> getProcessModelKeysForCorrelation 2 taskDatastore ''c1'' = Some (Inr [''order'', ''billing''])
   \<and> getIdsOfLanesThatCanBeAccessed taskDatastore clerkIam ''bob'' ''order'' = Inr []
   \<and> getIdsOfLanesThatCanBeAccessed taskDatastore clerkIam ''bob'' ''billing'' = Inr []
   \<and> processModelBelongsToCorrelation 2 taskDatastore ''c1'' ''order'' = Some (Inr True)
   \<and> getUserTasksForCorrelation 2 taskDatastore clerkIam ''bob'' ''c1'' = Some (Inl ForbiddenError)
   \<and> getUserTasksForProcessModel taskDatastore clerkIam ''bob'' ''order'' = Inl ForbiddenError
   \<and> getUserTasksForProcessModelInCorrelation 2 taskDatastore clerkIam ''bob'' ''order'' ''c1''
       = Some (Inl ForbiddenError)"
proof -
  have r: "resolveExecutionContext clerkIam ''bob'' = Inr ''bob''"
    by (simp add: clerkIam_def)
  have b: "processModelBelongsToCorrelation 2 taskDatastore ''c1'' ''order'' = Some (Inr True)"
    using task_keys by (simp add: processModelBelongsToCorrelation_def)
  show ?thesis
    using C2_forbidden_without_accessible_lanes[of clerkIam "''bob''" "''bob''" 2 taskDatastore "''c1''" "[''order'', ''billing'']"
        "''order''"] r b task_keys task_no_lanes
    by simp
qed

subsection \<open>Finishing a user task\<close>

lemmas order_defs = orderEngine_def orderProcess_def suspendedCheck_def approvedField_def
  endOk_def endRejected_def endCalled_def doneOk_def doneCalled_def doneEmpty_def


lemma validation_malformed:
  assumes "userTaskResult = JUndefined
           \<or> (\<exists>formFields. getProperty userTaskResult ''formFields'' = Inr formFields
                \<and> malformedFormFields formFields)"
  shows "getUserTaskResultFromUserTaskConfig userTaskResult = Inl BadRequestError"
  using assms
  by (auto simp: getUserTaskResultFromUserTaskConfig_def userTaskResultFromProperty_def
        malformedFormFields_def)

lemma finish_rejected_no_calls:
  "getUserTaskResultFromUserTaskConfig userTaskResult = Inl e \<Longrightarrow>
   snd (finishUserTask eng calls context pm cid taskId userTaskResult) = calls"
  by (simp add: finishUserTask_def split: sum.splits option.splits)

lemma finish_validation_error:
  "eng_resolveExecutionContext eng context = Inr ec \<Longrightarrow>
   svc_getUserTasksForProcessModelInCorrelation eng context pm cid = Inr tasks \<Longrightarrow>
   find (\<lambda>task. task_key task = taskId) tasks = Some task \<Longrightarrow>
   getUserTaskResultFromUserTaskConfig userTaskResult = Inl e \<Longrightarrow>
   finishUserTask eng calls context pm cid taskId userTaskResult = (Rejected e, calls)"
  by (simp add: finishUserTask_def)

lemma validation_malformed_adapter:
  assumes "userTaskResult = JUndefined
           \<or> (\<exists>formFields. getProperty userTaskResult ''form_fields'' = Inr formFields
                \<and> malformedFormFields formFields)"
  shows "adapter_getUserTaskResultFromUserTaskConfig userTaskResult = Inl BadRequestError"
  using assms
  by (auto simp: adapter_getUserTaskResultFromUserTaskConfig_def userTaskResultFromProperty_def
        malformedFormFields_def)

text \<open>
  C7, as amended. The claim says that every call of \<^verbatim>\<open>finishUserTask\<close> with a malformed
  payload fails with \<^verbatim>\<open>BadRequestError\<close>. The service looks the task up first, so a call
  for a task that is not found is rejected with \<^verbatim>\<open>NotFoundError\<close> whatever the payload
  (see the counterexample below). What holds: for every payload whose \<^verbatim>\<open>formFields\<close> is
  \<^verbatim>\<open>undefined\<close>, of non-object type, an array or an object without keys, the validation
  fails with \<^verbatim>\<open>BadRequestError\<close>, the call leaves the event aggregator untouched (no
  subscription, no publication), and the call fails with \<^verbatim>\<open>BadRequestError\<close> whenever the
  task lookup succeeds. The adapter's copy of the validation (property \<^verbatim>\<open>form_fields\<close>)
  fails with \<^verbatim>\<open>BadRequestError\<close> on the same payloads. And every call whose lookup fails,
  whatever its payload, is rejected with the error of the lookup and leaves the event
  aggregator untouched: the error of the context resolution, the error of the task
  listing, or \<^verbatim>\<open>NotFoundError\<close> when the task id is not among the listed tasks.
\<close>

theorem C7_malformed_payload_rejected:
  "((userTaskResult = JUndefined
     \<or> (\<exists>formFields. getProperty userTaskResult ''formFields'' = Inr formFields
          \<and> malformedFormFields formFields)) \<longrightarrow>
    getUserTaskResultFromUserTaskConfig userTaskResult = Inl BadRequestError
    \<and> snd (finishUserTask eng calls context pm cid taskId userTaskResult) = calls
    \<and> (eng_resolveExecutionContext eng context = Inr ec \<longrightarrow>
       svc_getUserTasksForProcessModelInCorrelation eng context pm cid = Inr tasks \<longrightarrow>
       find (\<lambda>task. task_key task = taskId) tasks = Some task \<longrightarrow>
       fst (finishUserTask eng calls context pm cid taskId userTaskResult)
         = Rejected BadRequestError))
   \<and> ((userTaskResult = JUndefined
        \<or> (\<exists>formFields. getProperty userTaskResult ''form_fields'' = Inr formFields
             \<and> malformedFormFields formFields)) \<longrightarrow>
       adapter_getUserTaskResultFromUserTaskConfig userTaskResult = Inl BadRequestError)
   \<and> (eng_resolveExecutionContext eng context = Inl e \<longrightarrow>
       finishUserTask eng calls context pm cid taskId userTaskResult = (Rejected e, calls))
   \<and> (eng_resolveExecutionContext eng context = Inr ec \<longrightarrow>
       svc_getUserTasksForProcessModelInCorrelation eng context pm cid = Inl e \<longrightarrow>
       finishUserTask eng calls context pm cid taskId userTaskResult = (Rejected e, calls))
   \<and> (eng_resolveExecutionContext eng context = Inr ec \<longrightarrow>
       svc_getUserTasksForProcessModelInCorrelation eng context pm cid = Inr tasks \<longrightarrow>
       find (\<lambda>task. task_key task = taskId) tasks = None \<longrightarrow>
       finishUserTask eng calls context pm cid taskId userTaskResult
         = (Rejected NotFoundError, calls))"
proof -
  have lookup:
    "eng_resolveExecutionContext eng context = Inl e \<longrightarrow>
       finishUserTask eng calls context pm cid taskId userTaskResult = (Rejected e, calls)"
    "eng_resolveExecutionContext eng context = Inr ec \<longrightarrow>
       svc_getUserTasksForProcessModelInCorrelation eng context pm cid = Inl e \<longrightarrow>
       finishUserTask eng calls context pm cid taskId userTaskResult = (Rejected e, calls)"
    "eng_resolveExecutionContext eng context = Inr ec \<longrightarrow>
       svc_getUserTasksForProcessModelInCorrelation eng context pm cid = Inr tasks \<longrightarrow>
       find (\<lambda>task. task_key task = taskId) tasks = None \<longrightarrow>
       finishUserTask eng calls context pm cid taskId userTaskResult
         = (Rejected NotFoundError, calls)"
    by (simp_all add: finishUserTask_def)
  show ?thesis
    using validation_malformed[of userTaskResult] validation_malformed_adapter[of userTaskResult]
      finish_rejected_no_calls[of userTaskResult BadRequestError eng calls "context" pm cid taskId]
      finish_validation_error[of eng "context" ec pm cid tasks taskId task userTaskResult
        BadRequestError calls]
      lookup
    by auto
qed


text \<open>
  C10. A payload whose \<^verbatim>\<open>formFields\<close> is \<^verbatim>\<open>null\<close> passes the not-an-object test
  (\<^verbatim>\<open>typeof null\<close> is \<^verbatim>\<open>'object'\<close>), and \<^verbatim>\<open>Object.keys(null)\<close> throws a \<^verbatim>\<open>TypeError\<close>, which
  is none of the documented error kinds; \<^verbatim>\<open>finishUserTask\<close> for a task that is found is
  rejected with it, and nothing is subscribed or published. The adapter's copy of the
  validation behaves the same on \<^verbatim>\<open>form_fields = null\<close>.
\<close>

theorem C10_null_form_fields_type_error:
  "(getProperty userTaskResult ''formFields'' = Inr JNull \<longrightarrow>
    getUserTaskResultFromUserTaskConfig userTaskResult = Inl TypeError
    \<and> TypeError \<notin> {BadRequestError, NotFoundError, ForbiddenError, UnprocessableEntityError}
    \<and> snd (finishUserTask eng calls context pm cid taskId userTaskResult) = calls
    \<and> (eng_resolveExecutionContext eng context = Inr ec \<longrightarrow>
       svc_getUserTasksForProcessModelInCorrelation eng context pm cid = Inr tasks \<longrightarrow>
       find (\<lambda>task. task_key task = taskId) tasks = Some task \<longrightarrow>
       fst (finishUserTask eng calls context pm cid taskId userTaskResult) = Rejected TypeError))
   \<and> (getProperty userTaskResult ''form_fields'' = Inr JNull \<longrightarrow>
       adapter_getUserTaskResultFromUserTaskConfig userTaskResult = Inl TypeError)"
proof -
  have v: "getUserTaskResultFromUserTaskConfig userTaskResult = Inl TypeError"
    if "getProperty userTaskResult ''formFields'' = Inr JNull"
    using that
    by (auto simp: getUserTaskResultFromUserTaskConfig_def userTaskResultFromProperty_def)
  have a: "adapter_getUserTaskResultFromUserTaskConfig userTaskResult = Inl TypeError"
    if "getProperty userTaskResult ''form_fields'' = Inr JNull"
    using that
    by (auto simp: adapter_getUserTaskResultFromUserTaskConfig_def
          userTaskResultFromProperty_def)
  show ?thesis
    using v a
      finish_rejected_no_calls[of userTaskResult TypeError eng calls "context" pm cid taskId]
      finish_validation_error[of eng "context" ec pm cid tasks taskId task userTaskResult
        TypeError calls]
    by auto
qed

lemma order_lookup:
  "eng_resolveExecutionContext orderEngine ''alice'' = Inr ''alice''"
  "svc_getUserTasksForProcessModelInCorrelation orderEngine ''alice'' ''order'' ''c1''
     = Inr [checkTask]"
  "find (\<lambda>task. task_key task = ''Task_Check'') [checkTask] = Some checkTask"
  "find (\<lambda>task. task_key task = ''Task_Unknown'') [checkTask] = None"
  "task_id checkTask = ''Task_Check''"
  by (simp_all add: svc_getUserTasksForProcessModelInCorrelation_def
        convertSuspendedFlowNodeToUserTask_def getFlowNodeById_def checkTask_def
        convertToConsumerApiUserTask_def order_defs)

text \<open>
  The counterexample to C7 as stated: the payload \<^verbatim>\<open>{}\<close> has \<^verbatim>\<open>formFields\<close> undefined, the
  task id is unknown, and the call fails with \<^verbatim>\<open>NotFoundError\<close>.
\<close>

theorem C7_unknown_task_counterexample:
  "getProperty (JObject []) ''formFields'' = Inr JUndefined
   \<and> malformedFormFields JUndefined
   \<and> finishUserTask orderEngine [] ''alice'' ''order'' ''c1'' ''Task_Unknown'' (JObject [])
       = (Rejected NotFoundError, [])
   \<and> fst (finishUserTask orderEngine [] ''alice'' ''order'' ''c1'' ''Task_Unknown'' (JObject []))
       \<noteq> Rejected BadRequestError"
  using order_lookup by (simp add: finishUserTask_def malformedFormFields_def)

theorem C7_malformed_payload_rejected_witness:
  "malformedFormFields JUndefined
   \<and> malformedFormFields (JString ''ab'')
   \<and> malformedFormFields (JArray [JNumber 1])
   \<and> malformedFormFields (JObject [])
   \<and> finishUserTask orderEngine [] ''alice'' ''order'' ''c1'' ''Task_Check'' (JObject [])
       = (Rejected BadRequestError, [])
   \<and> finishUserTask orderEngine [] ''alice'' ''order'' ''c1'' ''Task_Check''
         (JObject [(''formFields'', JString ''ab'')])
       = (Rejected BadRequestError, [])
   \<and> finishUserTask orderEngine [] ''alice'' ''order'' ''c1'' ''Task_Check''
         (JObject [(''formFields'', JArray [JNumber 1])])
       = (Rejected BadRequestError, [])
   \<and> finishUserTask orderEngine [] ''alice'' ''order'' ''c1'' ''Task_Check''
         (JObject [(''formFields'', JObject [])])
       = (Rejected BadRequestError, [])
   \<and> finishUserTask orderEngine [] ''alice'' ''order'' ''c1'' ''Task_Other''
         (JObject [(''formFields'', JObject [(''approved'', JBool True)])])
       = (Rejected NotFoundError, [])
   \<and> finishUserTask offlineEngine [] ''alice'' ''order'' ''c1'' ''Task_Check'' (JObject [])
       = (Rejected InternalServerError, [])
   \<and> finishUserTask unauthenticatedEngine [] ''alice'' ''order'' ''c1'' ''Task_Check''
         (JObject [])
       = (Rejected GenericError, [])"
proof -
  have notFound: "finishUserTask orderEngine [] ''alice'' ''order'' ''c1'' ''Task_Other''
         (JObject [(''formFields'', JObject [(''approved'', JBool True)])])
       = (Rejected NotFoundError, [])"
    using C7_malformed_payload_rejected
        [of "JObject [(''formFields'', JObject [(''approved'', JBool True)])]" orderEngine "[]"
          "''alice''" "''order''" "''c1''" "''Task_Other''" "''alice''" "[checkTask]"]
      order_lookup
    by (simp add: checkTask_def convertToConsumerApiUserTask_def suspendedCheck_def)
  have offline: "finishUserTask offlineEngine [] ''alice'' ''order'' ''c1'' ''Task_Check''
         (JObject [])
       = (Rejected InternalServerError, [])"
    using C7_malformed_payload_rejected
        [of "JObject []" offlineEngine "[]" "''alice''" "''order''" "''c1''" "''Task_Check''"
          "''alice''" _ _ InternalServerError]
    by (simp add: offlineEngine_def orderEngine_def
          svc_getUserTasksForProcessModelInCorrelation_def)
  have unauthenticated: "finishUserTask unauthenticatedEngine [] ''alice'' ''order'' ''c1''
         ''Task_Check'' (JObject [])
       = (Rejected GenericError, [])"
    using C7_malformed_payload_rejected
        [of "JObject []" unauthenticatedEngine "[]" "''alice''" "''order''" "''c1''"
          "''Task_Check''" _ _ _ GenericError]
    by (simp add: unauthenticatedEngine_def orderEngine_def)
  have rejected: "finishUserTask orderEngine [] ''alice'' ''order'' ''c1'' ''Task_Check'' u
          = (Rejected BadRequestError, [])"
    if "getProperty u ''formFields'' = Inr formFields" and "malformedFormFields formFields"
    for u formFields
    using C7_malformed_payload_rejected[of u orderEngine "[]" "''alice''" "''order''" "''c1''" "''Task_Check''" "''alice''"
        "[checkTask]" checkTask] that order_lookup
    by (auto simp: prod_eq_iff)
  have m: "malformedFormFields JUndefined" "malformedFormFields (JString ''ab'')"
    "malformedFormFields (JArray [JNumber 1])" "malformedFormFields (JObject [])"
    by (simp_all add: malformedFormFields_def)
  show ?thesis
    using m notFound offline unauthenticated rejected[of "JObject []" JUndefined]
      rejected[of "JObject [(''formFields'', JString ''ab'')]" "JString ''ab''"]
      rejected[of "JObject [(''formFields'', JArray [JNumber 1])]" "JArray [JNumber 1]"]
      rejected[of "JObject [(''formFields'', JObject [])]" "JObject []"]
    by simp
qed


theorem C10_null_form_fields_type_error_witness:
  "getProperty (JObject [(''formFields'', JNull)]) ''formFields'' = Inr JNull
   \<and> getUserTaskResultFromUserTaskConfig (JObject [(''formFields'', JNull)]) = Inl TypeError
   \<and> finishUserTask orderEngine [] ''alice'' ''order'' ''c1'' ''Task_Check''
         (JObject [(''formFields'', JNull)])
       = (Rejected TypeError, [])"
  using C10_null_form_fields_type_error[of "JObject [(''formFields'', JNull)]" orderEngine "[]" "''alice''" "''order''" "''c1''"
      "''Task_Check''" "''alice''" "[checkTask]" checkTask] order_lookup
  by (auto simp: prod_eq_iff)

subsection \<open>The result of a correlation\<close>

lemma map_of_filter_other_key:
  "k \<noteq> p \<Longrightarrow> map_of (filter (\<lambda>kv. fst kv \<noteq> p) props) k = map_of props k"
  by (induction props) auto

lemma map_of_filter_same_key:
  "map_of (filter (\<lambda>kv. fst kv \<noteq> p) props) p = None"
  by (induction props) auto

lemma objectAssign_own:
  "k \<noteq> ''__proto__'' \<Longrightarrow>
   obj_own (objectAssign target source) k = (obj_own target ++ map_of (ownProperties source)) k"
  by (simp add: objectAssign_def setProto_def Let_def map_add_def map_of_filter_other_key
      split: option.splits)

lemma objectAssign_without_proto:
  "map_of (ownProperties source) ''__proto__'' = None \<Longrightarrow>
   obj_own (objectAssign target source) ''__proto__'' = obj_own target ''__proto__''
   \<and> obj_proto (objectAssign target source) = obj_proto target"
  by (simp add: objectAssign_def Let_def map_add_def map_of_filter_same_key)

lemma merge_last_wins:
  "k \<noteq> ''__proto__'' \<Longrightarrow>
   obj_own (foldl (\<lambda>correlationResult endEventInstance.
                     objectAssign correlationResult (tok_payload (fni_token endEventInstance)))
              target xs) k =
     (case find (\<lambda>i. payloadProperties i k \<noteq> None) (rev xs) of
        None \<Rightarrow> obj_own target k
      | Some i \<Rightarrow> payloadProperties i k)"
proof (induction xs rule: rev_induct)
  case Nil
  then show ?case by simp
next
  case (snoc x xs)
  then show ?case
    by (cases "payloadProperties x k")
      (simp_all add: objectAssign_own map_add_def payloadProperties_def)
qed

lemma merge_without_proto:
  "\<forall>i \<in> set xs. payloadProperties i ''__proto__'' = None \<Longrightarrow>
   obj_own (foldl (\<lambda>correlationResult endEventInstance.
                     objectAssign correlationResult (tok_payload (fni_token endEventInstance)))
              target xs) ''__proto__'' = obj_own target ''__proto__''
   \<and> obj_proto (foldl (\<lambda>correlationResult endEventInstance.
                     objectAssign correlationResult (tok_payload (fni_token endEventInstance)))
              target xs) = obj_proto target"
proof (induction xs rule: rev_induct)
  case Nil
  then show ?case by simp
next
  case (snoc x xs)
  then show ?case
    using objectAssign_without_proto[of "tok_payload (fni_token x)"]
    by (simp add: payloadProperties_def)
qed

lemma isEndEventInstance_merged_iff:
  "isEndEventInstance_merged (getEndEvents processModel) processModelId i
     = contributesToResult callerUndefined processModel processModelId i"
  by (auto simp: isEndEventInstance_merged_def contributesToResult_def callerUndefined_def
        isEndEventOf_def getEndEvents_def)

lemma isEndEventInstance_listed_iff:
  "isEndEventInstance_listed (getEndEvents processModel) processModelId i
     = contributesToResult callerFalsy processModel processModelId i"
  by (auto simp: isEndEventInstance_listed_def contributesToResult_def callerFalsy_def
        isEndEventOf_def getEndEvents_def)

text \<open>
  The write of a key \<^verbatim>\<open>__proto__\<close> by \<^verbatim>\<open>Object.assign\<close>: on an object literal it replaces the
  prototype and leaves no own property of that name.
\<close>

lemma objectAssign_proto_key:
  "objectAssign emptyObject (JObject [(''a'', JBool True), (''__proto__'', JObject [])])
     = \<lparr> obj_own = [''a'' \<mapsto> JBool True], obj_proto = ValuePrototype (JObject []) \<rparr>"
  by (simp add: objectAssign_def setProto_def emptyObject_def)

text \<open>
  C9 as stated does not hold of both generations: it takes an instance to have no caller
  when its caller is not non-empty, and at the empty string the two generations part. In
  correlation \<open>c3\<close> all three instances are end-event instances of the requested process
  model and exactly one of them, \<open>doneCalled\<close>, has a non-empty caller. The listing
  generation builds its result from the two others; the merging generation builds it from
  \<open>doneOk\<close> alone and drops the payload of \<open>doneEmpty\<close>, whose caller is the empty string.
\<close>

theorem C9_empty_caller_counterexample:
  "getProcessModelById orderEngine ''order'' = Inr orderProcess
   \<and> queryByCorrelation orderEngine ''c3'' = Inr [doneOk, doneCalled, doneEmpty]
   \<and> isEndEventOf orderProcess doneOk
   \<and> isEndEventOf orderProcess doneCalled
   \<and> isEndEventOf orderProcess doneEmpty
   \<and> tok_processModelId (fni_token doneOk) = ''order''
   \<and> tok_processModelId (fni_token doneCalled) = ''order''
   \<and> tok_processModelId (fni_token doneEmpty) = ''order''
   \<and> tok_caller (fni_token doneOk) = None
   \<and> tok_caller (fni_token doneCalled) = Some ''m''
   \<and> tok_caller (fni_token doneEmpty) = Some ''''
   \<and> tok_payload (fni_token doneEmpty)
       = JObject [(''approved'', JBool False), (''reason'', JString ''late'')]
   \<and> getProcessResultForCorrelation_listed orderEngine ''alice'' ''c3'' ''order''
       = Inr [\<lparr> cr_correlationId = ''c3'', cr_endEventId = ''End_Ok'',
                cr_tokenPayload = JObject [(''approved'', JBool True)] \<rparr>,
              \<lparr> cr_correlationId = ''c3'', cr_endEventId = ''End_Rejected'',
                cr_tokenPayload = JObject [(''approved'', JBool False),
                                           (''reason'', JString ''late'')] \<rparr>]
   \<and> getProcessResultForCorrelation_merged orderEngine ''alice'' ''c3'' ''order''
       = Inr (objectAssign emptyObject (JObject [(''approved'', JBool True)]))
   \<and> obj_own (objectAssign emptyObject (JObject [(''approved'', JBool True)])) ''approved''
       = Some (JBool True)
   \<and> obj_own (objectAssign emptyObject (JObject [(''approved'', JBool True)])) ''reason''
       = None"
  by (simp add: getProcessResultForCorrelation_listed_def
      getProcessResultForCorrelation_merged_def isEndEventInstance_listed_def
      isEndEventInstance_merged_def getEndEvents_def isEndEventOf_def objectAssign_def
      emptyObject_def order_defs)

text \<open>
  C9 as amended. Where the process model and the flow node instances of the correlation
  are found, the result is built from the contributing instances alone: the flow node
  instances whose flow node is an end event of the requested process model, whose token
  belongs to that process model and whose token has no caller, where no caller means
  \<^verbatim>\<open>caller === undefined\<close> in the merging generation and a falsy caller (\<^verbatim>\<open>undefined\<close> or the
  empty string) in the listing generation.

  The merging generation always returns an object. For every key other than \<^verbatim>\<open>__proto__\<close>
  its own property is the value of the last contributing instance whose payload has that
  key, and it has no such own property when no contributing payload has the key. When no
  contributing payload has an own property \<^verbatim>\<open>__proto__\<close>, the object has none either and
  keeps the prototype of an object literal.

  The listing generation fails with \<^verbatim>\<open>NotFoundError\<close> when the correlation has no flow node
  instances at all. Otherwise it returns one entry per contributing instance, in order: the
  token payloads of the entries are the token payloads of the contributing instances, the
  end event ids their flow node ids, the correlation ids those of their tokens.
\<close>

theorem C9_result_of_end_events_without_caller:
  "getProcessModelById eng processModelId = Inr processModel \<longrightarrow>
   queryByCorrelation eng correlationId = Inr flowNodeInstances \<longrightarrow>
   (\<exists>merged.
      getProcessResultForCorrelation_merged eng context correlationId processModelId = Inr merged
      \<and> (\<forall>k. k \<noteq> ''__proto__'' \<longrightarrow>
             obj_own merged k =
               (case find (\<lambda>i. payloadProperties i k \<noteq> None)
                       (rev (filter (contributesToResult callerUndefined processModel
                                       processModelId)
                               flowNodeInstances)) of
                  None \<Rightarrow> None
                | Some i \<Rightarrow> payloadProperties i k))
      \<and> ((\<forall>i \<in> set (filter (contributesToResult callerUndefined processModel processModelId)
                         flowNodeInstances).
              payloadProperties i ''__proto__'' = None) \<longrightarrow>
           obj_own merged ''__proto__'' = None \<and> obj_proto merged = ObjectPrototype))
   \<and> (flowNodeInstances = [] \<longrightarrow>
        getProcessResultForCorrelation_listed eng context correlationId processModelId
          = Inl NotFoundError)
   \<and> (flowNodeInstances \<noteq> [] \<longrightarrow>
        (\<exists>results.
           getProcessResultForCorrelation_listed eng context correlationId processModelId
             = Inr results
           \<and> map cr_tokenPayload results
               = map (\<lambda>i. tok_payload (fni_token i))
                   (filter (contributesToResult callerFalsy processModel processModelId)
                      flowNodeInstances)
           \<and> map cr_endEventId results
               = map fni_flowNodeId
                   (filter (contributesToResult callerFalsy processModel processModelId)
                      flowNodeInstances)
           \<and> map cr_correlationId results
               = map (\<lambda>i. tok_correlationId (fni_token i))
                   (filter (contributesToResult callerFalsy processModel processModelId)
                      flowNodeInstances)))"
proof (intro impI)
  assume pm: "getProcessModelById eng processModelId = Inr processModel"
    and q: "queryByCorrelation eng correlationId = Inr flowNodeInstances"
  let ?contributing = "filter (contributesToResult callerUndefined processModel processModelId)
                         flowNodeInstances"
  let ?merged = "foldl (\<lambda>correlationResult endEventInstance.
                          objectAssign correlationResult
                            (tok_payload (fni_token endEventInstance)))
                   emptyObject ?contributing"
  have m: "getProcessResultForCorrelation_merged eng context correlationId processModelId
             = Inr ?merged"
    using pm q
    by (simp add: getProcessResultForCorrelation_merged_def
          isEndEventInstance_merged_iff[abs_def])
  have e0: "obj_own emptyObject = Map.empty" "obj_proto emptyObject = ObjectPrototype"
    by (simp_all add: emptyObject_def)
  have own: "\<forall>k. k \<noteq> ''__proto__'' \<longrightarrow>
               obj_own ?merged k =
                 (case find (\<lambda>i. payloadProperties i k \<noteq> None) (rev ?contributing) of
                    None \<Rightarrow> None
                  | Some i \<Rightarrow> payloadProperties i k)"
    using merge_last_wins[of _ emptyObject ?contributing]
    by (simp add: e0 split: option.split)
  have proto: "(\<forall>i \<in> set ?contributing. payloadProperties i ''__proto__'' = None) \<longrightarrow>
               obj_own ?merged ''__proto__'' = None \<and> obj_proto ?merged = ObjectPrototype"
    using merge_without_proto[of ?contributing emptyObject] by (simp add: e0)
  have l0: "flowNodeInstances = [] \<longrightarrow>
              getProcessResultForCorrelation_listed eng context correlationId processModelId
                = Inl NotFoundError"
    using pm q by (simp add: getProcessResultForCorrelation_listed_def)
  have l: "flowNodeInstances \<noteq> [] \<longrightarrow>
        (\<exists>results.
           getProcessResultForCorrelation_listed eng context correlationId processModelId
             = Inr results
           \<and> map cr_tokenPayload results
               = map (\<lambda>i. tok_payload (fni_token i))
                   (filter (contributesToResult callerFalsy processModel processModelId)
                      flowNodeInstances)
           \<and> map cr_endEventId results
               = map fni_flowNodeId
                   (filter (contributesToResult callerFalsy processModel processModelId)
                      flowNodeInstances)
           \<and> map cr_correlationId results
               = map (\<lambda>i. tok_correlationId (fni_token i))
                   (filter (contributesToResult callerFalsy processModel processModelId)
                      flowNodeInstances))"
    using pm q
    by (simp add: getProcessResultForCorrelation_listed_def
          isEndEventInstance_listed_iff[abs_def] comp_def)
  from m own proto l0 l
  show "(\<exists>merged.
      getProcessResultForCorrelation_merged eng context correlationId processModelId = Inr merged
      \<and> (\<forall>k. k \<noteq> ''__proto__'' \<longrightarrow>
             obj_own merged k =
               (case find (\<lambda>i. payloadProperties i k \<noteq> None)
                       (rev (filter (contributesToResult callerUndefined processModel
                                       processModelId)
                               flowNodeInstances)) of
                  None \<Rightarrow> None
                | Some i \<Rightarrow> payloadProperties i k))
      \<and> ((\<forall>i \<in> set (filter (contributesToResult callerUndefined processModel processModelId)
                         flowNodeInstances).
              payloadProperties i ''__proto__'' = None) \<longrightarrow>
           obj_own merged ''__proto__'' = None \<and> obj_proto merged = ObjectPrototype))
   \<and> (flowNodeInstances = [] \<longrightarrow>
        getProcessResultForCorrelation_listed eng context correlationId processModelId
          = Inl NotFoundError)
   \<and> (flowNodeInstances \<noteq> [] \<longrightarrow>
        (\<exists>results.
           getProcessResultForCorrelation_listed eng context correlationId processModelId
             = Inr results
           \<and> map cr_tokenPayload results
               = map (\<lambda>i. tok_payload (fni_token i))
                   (filter (contributesToResult callerFalsy processModel processModelId)
                      flowNodeInstances)
           \<and> map cr_endEventId results
               = map fni_flowNodeId
                   (filter (contributesToResult callerFalsy processModel processModelId)
                      flowNodeInstances)
           \<and> map cr_correlationId results
               = map (\<lambda>i. tok_correlationId (fni_token i))
                   (filter (contributesToResult callerFalsy processModel processModelId)
                      flowNodeInstances)))"
    by blast
qed

lemma order_contributing:
  "filter (contributesToResult callerUndefined orderProcess ''order'')
     [endOk, endCalled, endRejected] = [endOk, endRejected]"
  "filter (contributesToResult callerFalsy orderProcess ''order'')
     [endOk, endCalled, endRejected] = [endOk, endRejected]"
  by (simp_all add: contributesToResult_def callerUndefined_def callerFalsy_def isEndEventOf_def
        order_defs)

lemma correlationResult_eqI:
  "cr_tokenPayload r = p \<Longrightarrow> cr_endEventId r = e \<Longrightarrow> cr_correlationId r = c \<Longrightarrow>
   r = \<lparr> cr_correlationId = c, cr_endEventId = e, cr_tokenPayload = p \<rparr>"
  by (cases r) simp

text \<open>
  The example of the claim: correlation \<open>c2\<close> has three end-event instances, \<open>endCalled\<close>
  with the caller \<open>m\<close> and the two others with an undefined caller; these two make up the
  result of both generations. A correlation without flow node instances has no listed
  result.
\<close>

theorem C9_result_of_end_events_without_caller_witness:
  "getProcessModelById orderEngine ''order'' = Inr orderProcess
   \<and> queryByCorrelation orderEngine ''c2'' = Inr [endOk, endCalled, endRejected]
   \<and> tok_caller (fni_token endOk) = None
   \<and> tok_caller (fni_token endCalled) = Some ''m''
   \<and> tok_caller (fni_token endRejected) = None
   \<and> getProcessResultForCorrelation_listed orderEngine ''alice'' ''c2'' ''order''
       = Inr [\<lparr> cr_correlationId = ''c2'', cr_endEventId = ''End_Ok'',
                cr_tokenPayload = tok_payload (fni_token endOk) \<rparr>,
              \<lparr> cr_correlationId = ''c2'', cr_endEventId = ''End_Rejected'',
                cr_tokenPayload = tok_payload (fni_token endRejected) \<rparr>]
   \<and> (\<exists>merged.
         getProcessResultForCorrelation_merged orderEngine ''alice'' ''c2'' ''order'' = Inr merged
         \<and> obj_own merged ''approved'' = Some (JBool False)
         \<and> obj_own merged ''by'' = Some (JString ''alice'')
         \<and> obj_own merged ''nested'' = None
         \<and> obj_own merged ''__proto__'' = None
         \<and> obj_proto merged = ObjectPrototype)
   \<and> queryByCorrelation orderEngine ''c0'' = Inr []
   \<and> getProcessResultForCorrelation_listed orderEngine ''alice'' ''c0'' ''order''
       = Inl NotFoundError"
proof -
  have q: "getProcessModelById orderEngine ''order'' = Inr orderProcess"
    "queryByCorrelation orderEngine ''c2'' = Inr [endOk, endCalled, endRejected]"
    "queryByCorrelation orderEngine ''c0'' = Inr []"
    by (simp_all add: orderEngine_def)
  have c: "tok_caller (fni_token endOk) = None" "tok_caller (fni_token endCalled) = Some ''m''"
    "tok_caller (fni_token endRejected) = None"
    by (simp_all add: endOk_def endCalled_def endRejected_def)
  have p: "payloadProperties endOk ''approved'' = Some (JBool True)"
    "payloadProperties endOk ''by'' = Some (JString ''alice'')"
    "payloadProperties endOk ''nested'' = None"
    "payloadProperties endOk ''__proto__'' = None"
    "payloadProperties endRejected ''approved'' = Some (JBool False)"
    "payloadProperties endRejected ''by'' = None"
    "payloadProperties endRejected ''nested'' = None"
    "payloadProperties endRejected ''__proto__'' = None"
    by (simp_all add: payloadProperties_def endOk_def endRejected_def)
  have t: "fni_flowNodeId endOk = ''End_Ok''" "fni_flowNodeId endRejected = ''End_Rejected''"
    "tok_correlationId (fni_token endOk) = ''c2''"
    "tok_correlationId (fni_token endRejected) = ''c2''"
    by (simp_all add: endOk_def endRejected_def)
  note c9 = C9_result_of_end_events_without_caller[of orderEngine "''order''" orderProcess
      "''c2''" "[endOk, endCalled, endRejected]" "''alice''",
      THEN mp, OF q(1), THEN mp, OF q(2), unfolded order_contributing]
  note c0 = C9_result_of_end_events_without_caller[of orderEngine "''order''" orderProcess
      "''c0''" "[]" "''alice''", THEN mp, OF q(1), THEN mp, OF q(3)]
  from c9 obtain merged
    where m: "getProcessResultForCorrelation_merged orderEngine ''alice'' ''c2'' ''order''
                = Inr merged"
      and mk: "\<And>k. k \<noteq> ''__proto__'' \<Longrightarrow> obj_own merged k =
                 (case find (\<lambda>i. payloadProperties i k \<noteq> None) (rev [endOk, endRejected]) of
                    None \<Rightarrow> None | Some i \<Rightarrow> payloadProperties i k)"
      and mp: "(\<forall>i \<in> set [endOk, endRejected]. payloadProperties i ''__proto__'' = None) \<longrightarrow>
                 obj_own merged ''__proto__'' = None \<and> obj_proto merged = ObjectPrototype"
    by blast
  from c9 obtain results
    where l: "getProcessResultForCorrelation_listed orderEngine ''alice'' ''c2'' ''order''
                = Inr results"
      and lp: "map cr_tokenPayload results
                 = [tok_payload (fni_token endOk), tok_payload (fni_token endRejected)]"
      and le: "map cr_endEventId results = [fni_flowNodeId endOk, fni_flowNodeId endRejected]"
      and lc: "map cr_correlationId results
                 = [tok_correlationId (fni_token endOk), tok_correlationId (fni_token endRejected)]"
    by auto
  from lp obtain r1 r2 where r: "results = [r1, r2]"
    by (cases results; cases "tl results"; cases "tl (tl results)") auto
  have "results = [\<lparr> cr_correlationId = ''c2'', cr_endEventId = ''End_Ok'',
                      cr_tokenPayload = tok_payload (fni_token endOk) \<rparr>,
                    \<lparr> cr_correlationId = ''c2'', cr_endEventId = ''End_Rejected'',
                      cr_tokenPayload = tok_payload (fni_token endRejected) \<rparr>]"
    using lp le lc t unfolding r by (simp add: correlationResult_eqI)
  with l have listed: "getProcessResultForCorrelation_listed orderEngine ''alice'' ''c2'' ''order''
       = Inr [\<lparr> cr_correlationId = ''c2'', cr_endEventId = ''End_Ok'',
                cr_tokenPayload = tok_payload (fni_token endOk) \<rparr>,
              \<lparr> cr_correlationId = ''c2'', cr_endEventId = ''End_Rejected'',
                cr_tokenPayload = tok_payload (fni_token endRejected) \<rparr>]"
    by simp
  have own: "obj_own merged ''approved'' = Some (JBool False)"
    "obj_own merged ''by'' = Some (JString ''alice'')"
    "obj_own merged ''nested'' = None"
    using p by (simp_all add: mk)
  have proto: "obj_own merged ''__proto__'' = None \<and> obj_proto merged = ObjectPrototype"
    using mp p by simp
  from c0 have none: "getProcessResultForCorrelation_listed orderEngine ''alice'' ''c0'' ''order''
       = Inl NotFoundError"
    by simp
  from q c listed m own proto none show ?thesis by blast
qed


end
